theory Spec2Isabelle
  imports Main "HOL-Library.Word" "HOL-Library.List_Lexorder"
begin

unbundle bit_operations_syntax

text \<open>
  A shallow embedding of the Go package \<open>protocol\<close> (low level CMS types, parsing and
  generation) and the properties of it that are proved here.

  \<^item> A Go structure is a record, an error a value of the type \<open>error\<close>; a function that
    returns a value and an error returns a sum, \<open>Inl\<close> the error.
  \<^item> A method with a pointer receiver that changes it (\<open>AddSignerInfo\<close>,
    \<open>addCertificate\<close>, \<open>addDigestAlgorithm\<close>) takes the structure and returns it as the
    call leaves it, together with the error.
  \<^item> A slice that the code compares with nil is an optional list, \<open>None\<close> being nil.
  \<^item> A loop is a recursive function over what the loop ranges over.
  \<^item> Of the libraries the package calls, reading a tag-length-value (\<open>encoding/asn1\<close>)
    is defined here from the library; the digests, \<open>asn1.Marshal\<close> and the package's own
    \<open>AnySet\<close> codec are parameters of the functions that use them.
\<close>

section \<open>Data model of package protocol\<close>

type_synonym byte = "8 word"

text \<open>
  A Go \<open>asn1.ObjectIdentifier\<close> is a slice of ints. \<open>ObjectIdentifier.Equal\<close> compares
  length and elements, so a nil and an empty identifier are equal: both are the empty list.
\<close>

type_synonym ObjectIdentifier = "int list"

definition OID_Equal :: "ObjectIdentifier \<Rightarrow> ObjectIdentifier \<Rightarrow> bool" where
  "OID_Equal oi other = (oi = other)"

text \<open>
  Every error value the source creates with \<open>errors.New\<close> or \<open>fmt.Errorf\<close> (the
  numbers that \<open>fmt.Errorf\<close> prints are arguments of the constructor), the two error kinds
  of \<open>encoding/asn1\<close>, and the errors of \<open>crypto/x509\<close> and of a signer.
\<close>

datatype error =
    ErrUnsupportedContentType
  | ErrWrongType
  | ErrTrailingData
  | ErrBadDataContent int int
  | ErrExpectedOneAttribute nat
  | ErrExpectedOneAttributeValue nat
  | ErrNoCertificates
  | ErrUnknownSignerInfoVersion
  | ErrNoMatchingCertificate
  | ErrUnknownDigestAlgorithm string
  | ErrHashNotAvailable string
  | ErrNoCertificateMatchingSigner
  | ErrUnsupportedDigestAlgorithm
  | ErrUnsupportedSignatureAlgorithm
  | ErrAlreadyDetached
  | ErrCertificateAlreadyAdded
  | SyntaxError string
  | StructuralError string
  | LibraryError string

definition error_message :: "error \<Rightarrow> string" where
  "error_message e = (case e of
      ErrUnsupportedContentType \<Rightarrow> ''cms/protocol: cannot parse data: unimplemented content type''
    | ErrWrongType \<Rightarrow> ''cms/protocol: wrong choice or any type''
    | ErrTrailingData \<Rightarrow> ''unexpected trailing data''
    | ErrBadDataContent c t \<Rightarrow> ''bad data content''
    | ErrExpectedOneAttribute n \<Rightarrow> ''expected 1 attribute''
    | ErrExpectedOneAttributeValue n \<Rightarrow> ''expected 1 attribute value''
    | ErrNoCertificates \<Rightarrow> ''no certificates''
    | ErrUnknownSignerInfoVersion \<Rightarrow> ''unknown SignerInfo version''
    | ErrNoMatchingCertificate \<Rightarrow> ''no matching certificate''
    | ErrUnknownDigestAlgorithm a \<Rightarrow> ''unknown digest algorithm: '' @ a
    | ErrHashNotAvailable a \<Rightarrow> ''Hash not avaialbe: '' @ a
    | ErrNoCertificateMatchingSigner \<Rightarrow> ''No certificate matching signer's public key''
    | ErrUnsupportedDigestAlgorithm \<Rightarrow> ''unsupported digest algorithm''
    | ErrUnsupportedSignatureAlgorithm \<Rightarrow> ''unsupported signature algorithm''
    | ErrAlreadyDetached \<Rightarrow> ''already detached''
    | ErrCertificateAlreadyAdded \<Rightarrow> ''certificate already added''
    | SyntaxError m \<Rightarrow> ''asn1: syntax error: '' @ m
    | StructuralError m \<Rightarrow> ''asn1: structure error: '' @ m
    | LibraryError m \<Rightarrow> m)"

text \<open>
  \<open>asn1.RawValue\<close>. The source tests \<open>Bytes\<close> against nil
  (\<open>EncapsulatedContentInfo.EContentValue\<close>), so \<open>Bytes\<close> is an optional list:
  \<open>None\<close> is the nil slice, \<open>Some []\<close> an empty slice that is not nil.
\<close>

record asn1_RawValue =
  Class :: int
  Tag :: int
  IsCompound :: bool
  Bytes :: "byte list option"
  FullBytes :: "byte list"

definition slice_bytes :: "byte list option \<Rightarrow> byte list" where
  "slice_bytes s = (case s of None \<Rightarrow> [] | Some bs \<Rightarrow> bs)"

definition bytes_Equal :: "byte list \<Rightarrow> byte list \<Rightarrow> bool" where
  "bytes_Equal a b = (a = b)"

definition ClassUniversal :: int where "ClassUniversal = 0"
definition ClassContextSpecific :: int where "ClassContextSpecific = 2"
definition TagInteger :: int where "TagInteger = 2"
definition TagOctetString :: int where "TagOctetString = 4"
definition TagOID :: int where "TagOID = 6"
definition TagSequence :: int where "TagSequence = 16"
definition TagSet :: int where "TagSet = 17"

definition zero_RawValue :: asn1_RawValue where
  "zero_RawValue = \<lparr>Class = 0, Tag = 0, IsCompound = False, Bytes = None, FullBytes = []\<rparr>"

subsection \<open>Object identifiers of the package\<close>

definition oidData :: ObjectIdentifier where
  "oidData = [1, 2, 840, 113549, 1, 7, 1]"
definition oidSignedData :: ObjectIdentifier where
  "oidSignedData = [1, 2, 840, 113549, 1, 7, 2]"
definition oidTSTInfo :: ObjectIdentifier where
  "oidTSTInfo = [1, 2, 840, 113549, 1, 9, 16, 1, 4]"

definition oidAttributeContentType :: ObjectIdentifier where
  "oidAttributeContentType = [1, 2, 840, 113549, 1, 9, 3]"
definition oidAttributeMessageDigest :: ObjectIdentifier where
  "oidAttributeMessageDigest = [1, 2, 840, 113549, 1, 9, 4]"
definition oidAttributeSigningTime :: ObjectIdentifier where
  "oidAttributeSigningTime = [1, 2, 840, 113549, 1, 9, 5]"

definition oidSignatureAlgorithmRSA :: ObjectIdentifier where
  "oidSignatureAlgorithmRSA = [1, 2, 840, 113549, 1, 1, 1]"
definition oidSignatureAlgorithmECDSA :: ObjectIdentifier where
  "oidSignatureAlgorithmECDSA = [1, 2, 840, 10045, 2, 1]"

definition oidDigestAlgorithmSHA1 :: ObjectIdentifier where
  "oidDigestAlgorithmSHA1 = [1, 3, 14, 3, 2, 26]"
definition oidDigestAlgorithmMD5 :: ObjectIdentifier where
  "oidDigestAlgorithmMD5 = [1, 2, 840, 113549, 2, 5]"
definition oidDigestAlgorithmSHA256 :: ObjectIdentifier where
  "oidDigestAlgorithmSHA256 = [2, 16, 840, 1, 101, 3, 4, 2, 1]"
definition oidDigestAlgorithmSHA384 :: ObjectIdentifier where
  "oidDigestAlgorithmSHA384 = [2, 16, 840, 1, 101, 3, 4, 2, 2]"
definition oidDigestAlgorithmSHA512 :: ObjectIdentifier where
  "oidDigestAlgorithmSHA512 = [2, 16, 840, 1, 101, 3, 4, 2, 3]"

definition oidSubjectKeyIdentifier :: ObjectIdentifier where
  "oidSubjectKeyIdentifier = [2, 5, 29, 14]"

subsection \<open>Envelope types\<close>

record EncapsulatedContentInfo =
  EContentType :: ObjectIdentifier
  EContent :: asn1_RawValue

record AlgorithmIdentifier =
  Algorithm :: ObjectIdentifier
  Parameters :: asn1_RawValue

record Attribute =
  Type :: ObjectIdentifier
  RawValue :: asn1_RawValue

text \<open>\<open>Attributes\<close> is a slice the source tests against nil: \<open>None\<close> is nil.\<close>

type_synonym Attributes = "Attribute list option"

record AnySet =
  Elements :: "asn1_RawValue list"

record IssuerAndSerialNumber =
  Issuer :: asn1_RawValue
  SerialNumber :: int

record SignerInfo =
  si_Version :: int
  SID :: asn1_RawValue
  DigestAlgorithm :: AlgorithmIdentifier
  SignedAttrs :: Attributes
  SignatureAlgorithm :: AlgorithmIdentifier
  Signature :: "byte list"
  UnsignedAttrs :: Attributes

record SignedData =
  Version :: int
  DigestAlgorithms :: "AlgorithmIdentifier list"
  EncapContentInfo :: EncapsulatedContentInfo
  Certificates :: "asn1_RawValue list"
  CRLs :: "asn1_RawValue list"
  SignerInfos :: "SignerInfo list"

subsection \<open>\<open>NewSignedData\<close>\<close>

definition IsTypeData :: "EncapsulatedContentInfo \<Rightarrow> bool" where
  "IsTypeData eci = OID_Equal (EContentType eci) oidData"

definition NewSignedData :: "EncapsulatedContentInfo \<Rightarrow> error + SignedData" where
  "NewSignedData eci =
     (let version = (if \<not> IsTypeData eci then 3 else 1)
      in Inr \<lparr>Version = version,
              DigestAlgorithms = [],
              EncapContentInfo = eci,
              Certificates = [],
              CRLs = [],
              SignerInfos = []\<rparr>)"

section \<open>The standard library, as far as the package uses it\<close>

subsection \<open>\<open>ObjectIdentifier.String\<close>: dotted decimal\<close>

definition digit_char :: "nat \<Rightarrow> char" where
  "digit_char d = ''0123456789'' ! (d mod 10)"

fun format_nat :: "nat \<Rightarrow> string" where
  "format_nat n = (if n < 10 then [digit_char n] else format_nat (n div 10) @ [digit_char (n mod 10)])"

declare format_nat.simps [simp del]

definition format_int :: "int \<Rightarrow> string" where
  "format_int v = (if v < 0 then CHR ''-'' # format_nat (nat (- v)) else format_nat (nat v))"

fun OID_String :: "ObjectIdentifier \<Rightarrow> string" where
  "OID_String [] = []"
| "OID_String [v] = format_int v"
| "OID_String (v # w # vs) = format_int v @ CHR ''.'' # OID_String (w # vs)"

subsection \<open>\<open>crypto\<close> and \<open>crypto/x509\<close>\<close>

datatype crypto_Hash = MD5 | SHA1 | SHA256 | SHA384 | SHA512

datatype x509_SignatureAlgorithm =
    UnknownSignatureAlgorithm
  | MD2WithRSA | MD5WithRSA | SHA1WithRSA | SHA256WithRSA | SHA384WithRSA | SHA512WithRSA
  | DSAWithSHA1 | DSAWithSHA256
  | ECDSAWithSHA1 | ECDSAWithSHA256 | ECDSAWithSHA384 | ECDSAWithSHA512
  | SHA256WithRSAPSS | SHA384WithRSAPSS | SHA512WithRSAPSS
  | PureEd25519

text \<open>
  The package uses a public key only through \<open>x509.MarshalPKIXPublicKey\<close>; a key is
  represented by what that function returns for it: its PKIX encoding, or an error for a key
  type the library does not support.
\<close>

datatype PublicKey = PKIXPublicKey "byte list" | UnsupportedPublicKey

definition MarshalPKIXPublicKey :: "PublicKey \<Rightarrow> error + byte list" where
  "MarshalPKIXPublicKey k = (case k of
      PKIXPublicKey der \<Rightarrow> Inr der
    | UnsupportedPublicKey \<Rightarrow> Inl (LibraryError ''x509: unsupported public key type''))"

record Extension =
  Id :: ObjectIdentifier
  Critical :: bool
  Value :: "byte list"

text \<open>The fields of \<open>x509.Certificate\<close> that the package reads.\<close>

record Certificate =
  Raw :: "byte list"
  RawIssuer :: "byte list"
  cert_SerialNumber :: int
  cert_PublicKey :: PublicKey
  cert_SignatureAlgorithm :: x509_SignatureAlgorithm
  Extensions :: "Extension list"

text \<open>
  A \<open>crypto.Signer\<close>: its public key and its \<open>Sign\<close> method, applied to a digest and
  the hash that produced it (the random source is the signer's own business).
\<close>

record Signer =
  Public :: PublicKey
  Sign :: "byte list \<Rightarrow> crypto_Hash \<Rightarrow> error + byte list"

subsection \<open>\<open>encoding/asn1\<close>: reading one tag-length-value\<close>

record tagAndLength =
  tl_class :: int
  tl_tag :: int
  tl_length :: nat
  tl_isCompound :: bool

fun parseBase128Int :: "nat \<Rightarrow> int \<Rightarrow> byte list \<Rightarrow> error + (int \<times> byte list)" where
  "parseBase128Int shifted ret64 [] = Inl (SyntaxError ''truncated base 128 integer'')"
| "parseBase128Int shifted ret64 (b # bs) =
     (if shifted = 5 then Inl (StructuralError ''base 128 integer too large'')
      else if shifted = 0 \<and> b = 0x80 then Inl (SyntaxError ''integer is not minimally encoded'')
      else
        let ret64' = push_bit 7 ret64 OR uint (b AND 0x7f)
        in if b AND 0x80 = 0
           then (if ret64' > 2147483647 then Inl (StructuralError ''base 128 integer too large'')
                 else Inr (ret64', bs))
           else parseBase128Int (Suc shifted) ret64' bs)"

fun parseLengthBytes :: "nat \<Rightarrow> nat \<Rightarrow> byte list \<Rightarrow> error + (nat \<times> byte list)" where
  "parseLengthBytes 0 len bs = Inr (len, bs)"
| "parseLengthBytes (Suc n) len [] = Inl (SyntaxError ''truncated tag or length'')"
| "parseLengthBytes (Suc n) len (b # bs) =
     (if len \<ge> 2 ^ 23 then Inl (StructuralError ''length too large'')
      else
        let len' = push_bit 8 len OR unat b
        in if len' = 0 then Inl (StructuralError ''superfluous leading zeros in length'')
           else parseLengthBytes n len' bs)"

definition parseTag :: "byte \<Rightarrow> byte list \<Rightarrow> error + (int \<times> byte list)" where
  "parseTag b bs =
     (if b AND 0x1f = 0x1f
      then (case parseBase128Int 0 0 bs of
              Inl e \<Rightarrow> Inl e
            | Inr (t, bs') \<Rightarrow>
                if t < 0x1f then Inl (SyntaxError ''non-minimal tag'') else Inr (t, bs'))
      else Inr (uint (b AND 0x1f), bs))"

definition parseLength :: "byte list \<Rightarrow> error + (nat \<times> byte list)" where
  "parseLength bs = (case bs of
      [] \<Rightarrow> Inl (SyntaxError ''truncated tag or length'')
    | b # bs' \<Rightarrow>
        if b AND 0x80 = 0 then Inr (unat (b AND 0x7f), bs')
        else
          let numBytes = unat (b AND 0x7f)
          in if numBytes = 0 then Inl (SyntaxError ''indefinite length found (not DER)'')
             else (case parseLengthBytes numBytes 0 bs' of
                     Inl e \<Rightarrow> Inl e
                   | Inr (len, bs'') \<Rightarrow>
                       if len < 0x80 then Inl (StructuralError ''non-minimal length'')
                       else Inr (len, bs'')))"

definition parseTagAndLength :: "byte list \<Rightarrow> error + (tagAndLength \<times> byte list)" where
  "parseTagAndLength bytes = (case bytes of
      [] \<Rightarrow> Inl (LibraryError ''asn1: internal error in parseTagAndLength'')
    | b # bs \<Rightarrow>
        (case parseTag b bs of
           Inl e \<Rightarrow> Inl e
         | Inr (t, bs1) \<Rightarrow>
             (case parseLength bs1 of
                Inl e \<Rightarrow> Inl e
              | Inr (len, bs2) \<Rightarrow>
                  Inr (\<lparr>tl_class = uint (drop_bit 6 b), tl_tag = t, tl_length = len,
                        tl_isCompound = (b AND 0x20 = 0x20)\<rparr>, bs2))))"

text \<open>
  \<open>asn1.Unmarshal(bytes, &raw)\<close> for a \<open>raw\<close> of type \<open>asn1.RawValue\<close>: the first
  tag-length-value of \<open>bytes\<close> and the bytes after it. \<open>Bytes\<close> is the content,
  \<open>FullBytes\<close> the content with its header.
\<close>

definition asn1_Unmarshal_RawValue :: "byte list \<Rightarrow> error + (asn1_RawValue \<times> byte list)" where
  "asn1_Unmarshal_RawValue bytes =
     (if bytes = [] then Inl (SyntaxError ''sequence truncated'')
      else (case parseTagAndLength bytes of
              Inl e \<Rightarrow> Inl e
            | Inr (t, rest) \<Rightarrow>
                if tl_length t > length rest then Inl (SyntaxError ''data truncated'')
                else Inr (\<lparr>Class = tl_class t, Tag = tl_tag t, IsCompound = tl_isCompound t,
                           Bytes = Some (take (tl_length t) rest),
                           FullBytes = take (length bytes - length rest + tl_length t) bytes\<rparr>,
                          drop (tl_length t) rest)))"

lemma parseBase128Int_length:
  "parseBase128Int shifted ret64 bs = Inr (t, rest) \<Longrightarrow> length rest < length bs"
proof (induction shifted ret64 bs rule: parseBase128Int.induct)
  case (1 shifted ret64)
  then show ?case by simp
next
  case (2 shifted ret64 b bs)
  show ?case
  proof (cases "b AND 0x80 = 0")
    case True
    with "2.prems" show ?thesis by (auto simp: Let_def split: if_splits)
  next
    case False
    with "2.prems" have "parseBase128Int (Suc shifted) (push_bit 7 ret64 OR uint (b AND 0x7f)) bs
        = Inr (t, rest)" and "shifted \<noteq> 5" and "\<not> (shifted = 0 \<and> b = 0x80)"
      by (auto simp: Let_def split: if_splits)
    with "2.IH" [OF _ _ refl False] have "length rest < length bs" by simp
    then show ?thesis by simp
  qed
qed

lemma parseLengthBytes_length:
  "parseLengthBytes n len bs = Inr (l, rest) \<Longrightarrow> length rest \<le> length bs"
proof (induction n len bs rule: parseLengthBytes.induct)
  case (3 n len b bs)
  from "3.prems" have a: "\<not> 2 ^ 23 \<le> len" and b: "push_bit 8 len OR unat b \<noteq> 0"
    and c: "parseLengthBytes n (push_bit 8 len OR unat b) bs = Inr (l, rest)"
    by (auto simp: Let_def split: if_splits)
  from "3.IH" [OF a refl b c] show ?case by simp
qed simp_all

lemma parseTagAndLength_length:
  assumes "parseTagAndLength bs = Inr (t, rest)"
  shows "length rest + 2 \<le> length bs"
proof -
  from assms obtain b bs0 where bs: "bs = b # bs0"
    by (cases bs) (auto simp: parseTagAndLength_def)
  from assms bs obtain tg bs1 where tag: "parseTag b bs0 = Inr (tg, bs1)"
    and len: "parseLength bs1 = Inr (tl_length t, rest)"
    by (auto simp: parseTagAndLength_def split: sum.splits)
  from tag have "length bs1 \<le> length bs0"
    by (auto simp: parseTag_def split: if_splits sum.splits dest: parseBase128Int_length)
  moreover from len have "length rest < length bs1"
    by (cases bs1)
       (auto simp: parseLength_def Let_def split: if_splits sum.splits
             dest: parseLengthBytes_length)
  ultimately show ?thesis using bs by simp
qed

lemma asn1_Unmarshal_RawValue_length:
  "asn1_Unmarshal_RawValue bs = Inr (rv, rest) \<Longrightarrow> length rest + 2 \<le> length bs"
  by (auto simp: asn1_Unmarshal_RawValue_def split: if_splits sum.splits
           dest!: parseTagAndLength_length)

subsection \<open>\<open>encoding/asn1\<close>: reading an \<open>IssuerAndSerialNumber\<close>\<close>

definition checkInteger :: "byte list \<Rightarrow> error option" where
  "checkInteger bytes = (case bytes of
      [] \<Rightarrow> Some (StructuralError ''empty integer'')
    | [b0] \<Rightarrow> None
    | b0 # b1 # bs \<Rightarrow>
        if (b0 = 0 \<and> b1 AND 0x80 = 0) \<or> (b0 = 0xff \<and> b1 AND 0x80 = 0x80)
        then Some (StructuralError ''integer not minimally-encoded'')
        else None)"

text \<open>\<open>big.Int.SetBytes\<close>: the bytes as a big-endian unsigned number.\<close>

definition SetBytes :: "byte list \<Rightarrow> int" where
  "SetBytes bytes = foldl (\<lambda>acc b. acc * 256 + uint b) 0 bytes"

definition parseBigInt :: "byte list \<Rightarrow> error + int" where
  "parseBigInt bytes = (case checkInteger bytes of
      Some e \<Rightarrow> Inl e
    | None \<Rightarrow>
        if length bytes > 0 \<and> hd bytes AND 0x80 = 0x80
        then Inr (- (SetBytes (map (\<lambda>b. NOT b) bytes) + 1))
        else Inr (SetBytes bytes))"

text \<open>
  A field of type \<open>*big.Int\<close> inside a structure: a primitive universal INTEGER. It returns
  the number and the bytes after the field.
\<close>

definition parseField_BigInt :: "byte list \<Rightarrow> error + (int \<times> byte list)" where
  "parseField_BigInt bytes =
     (if bytes = [] then Inl (SyntaxError ''sequence truncated'')
      else (case parseTagAndLength bytes of
              Inl e \<Rightarrow> Inl e
            | Inr (t, rest) \<Rightarrow>
                if tl_class t \<noteq> ClassUniversal \<or> tl_tag t \<noteq> TagInteger \<or> tl_isCompound t
                then Inl (StructuralError ''tags don't match'')
                else if tl_length t > length rest then Inl (SyntaxError ''data truncated'')
                else (case parseBigInt (take (tl_length t) rest) of
                        Inl e \<Rightarrow> Inl e
                      | Inr n \<Rightarrow> Inr (n, drop (tl_length t) rest))))"

text \<open>
  \<open>asn1.Unmarshal(bytes, &isn)\<close> for an \<open>isn\<close> of type \<open>IssuerAndSerialNumber\<close>: a
  universal constructed SEQUENCE whose content starts with any value (the issuer, kept raw)
  and an INTEGER; bytes of the content after these two fields are allowed. It returns the
  bytes after the SEQUENCE.
\<close>

definition asn1_Unmarshal_IssuerAndSerialNumber ::
  "byte list \<Rightarrow> error + (IssuerAndSerialNumber \<times> byte list)" where
  "asn1_Unmarshal_IssuerAndSerialNumber bytes =
     (if bytes = [] then Inl (SyntaxError ''sequence truncated'')
      else (case parseTagAndLength bytes of
              Inl e \<Rightarrow> Inl e
            | Inr (t, rest) \<Rightarrow>
                if tl_class t \<noteq> ClassUniversal \<or> tl_tag t \<noteq> TagSequence \<or> \<not> tl_isCompound t
                then Inl (StructuralError ''tags don't match'')
                else if tl_length t > length rest then Inl (SyntaxError ''data truncated'')
                else (case asn1_Unmarshal_RawValue (take (tl_length t) rest) of
                        Inl e \<Rightarrow> Inl e
                      | Inr (issuer, inner) \<Rightarrow>
                          (case parseField_BigInt inner of
                             Inl e \<Rightarrow> Inl e
                           | Inr (n, inner') \<Rightarrow>
                               Inr (\<lparr>Issuer = issuer, SerialNumber = n\<rparr>,
                                    drop (tl_length t) rest)))))"

section \<open>Package protocol\<close>

subsection \<open>Algorithm tables\<close>

definition digestAlgorithmToHash :: "string \<rightharpoonup> crypto_Hash" where
  "digestAlgorithmToHash = map_of
     [(OID_String oidDigestAlgorithmSHA1, SHA1),
      (OID_String oidDigestAlgorithmMD5, MD5),
      (OID_String oidDigestAlgorithmSHA256, SHA256),
      (OID_String oidDigestAlgorithmSHA384, SHA384),
      (OID_String oidDigestAlgorithmSHA512, SHA512)]"

definition signatureAlgorithmToDigestAlgorithm ::
  "x509_SignatureAlgorithm \<rightharpoonup> ObjectIdentifier" where
  "signatureAlgorithmToDigestAlgorithm = map_of
     [(SHA1WithRSA, oidDigestAlgorithmSHA1),
      (MD5WithRSA, oidDigestAlgorithmMD5),
      (SHA256WithRSA, oidDigestAlgorithmSHA256),
      (SHA384WithRSA, oidDigestAlgorithmSHA384),
      (SHA512WithRSA, oidDigestAlgorithmSHA512),
      (ECDSAWithSHA1, oidDigestAlgorithmSHA1),
      (ECDSAWithSHA256, oidDigestAlgorithmSHA256),
      (ECDSAWithSHA384, oidDigestAlgorithmSHA384),
      (ECDSAWithSHA512, oidDigestAlgorithmSHA512)]"

definition signatureAlgorithmToSignatureAlgorithm ::
  "x509_SignatureAlgorithm \<rightharpoonup> ObjectIdentifier" where
  "signatureAlgorithmToSignatureAlgorithm = map_of
     [(SHA1WithRSA, oidSignatureAlgorithmRSA),
      (MD5WithRSA, oidSignatureAlgorithmRSA),
      (SHA256WithRSA, oidSignatureAlgorithmRSA),
      (SHA384WithRSA, oidSignatureAlgorithmRSA),
      (SHA512WithRSA, oidSignatureAlgorithmRSA),
      (ECDSAWithSHA1, oidSignatureAlgorithmECDSA),
      (ECDSAWithSHA256, oidSignatureAlgorithmECDSA),
      (ECDSAWithSHA384, oidSignatureAlgorithmECDSA),
      (ECDSAWithSHA512, oidSignatureAlgorithmECDSA)]"

definition signatureAlgorithms :: "string \<rightharpoonup> (string \<rightharpoonup> x509_SignatureAlgorithm)" where
  "signatureAlgorithms = map_of
     [(OID_String oidSignatureAlgorithmRSA, map_of
         [(OID_String oidDigestAlgorithmSHA1, SHA1WithRSA),
          (OID_String oidDigestAlgorithmMD5, MD5WithRSA),
          (OID_String oidDigestAlgorithmSHA256, SHA256WithRSA),
          (OID_String oidDigestAlgorithmSHA384, SHA384WithRSA),
          (OID_String oidDigestAlgorithmSHA512, SHA512WithRSA)]),
      (OID_String oidSignatureAlgorithmECDSA, map_of
         [(OID_String oidDigestAlgorithmSHA1, ECDSAWithSHA1),
          (OID_String oidDigestAlgorithmSHA256, ECDSAWithSHA256),
          (OID_String oidDigestAlgorithmSHA384, ECDSAWithSHA384),
          (OID_String oidDigestAlgorithmSHA512, ECDSAWithSHA512)])]"

subsection \<open>What the package calls and this file does not contain\<close>

text \<open>The values the package passes to \<open>asn1.Marshal\<close>.\<close>

datatype asn1_Value =
    BytesValue "byte list"
  | ObjectIdentifierValue ObjectIdentifier
  | IssuerAndSerialNumberValue IssuerAndSerialNumber
  | AttributesSetValue Attributes

text \<open>
  The collaborators of the package are parameters of its functions: whether a hash is linked
  into the binary (\<open>crypto.Hash.Available\<close>), the digest of a byte sequence
  (\<open>hash.New\<close>, \<open>Write\<close>, \<open>Sum\<close>; writing to a \<open>hash.Hash\<close> never fails),
  \<open>asn1.Marshal\<close>, and the two functions of the package's own \<open>AnySet\<close> codec, which
  live in another file: \<open>DecodeAnySet\<close> and \<open>AnySet.Encode\<close> (into a zero
  \<open>asn1.RawValue\<close>).
\<close>

record extern =
  Hash_Available :: "crypto_Hash \<Rightarrow> bool"
  Hash_Sum :: "crypto_Hash \<Rightarrow> byte list \<Rightarrow> byte list"
  asn1_Marshal :: "asn1_Value \<Rightarrow> error + byte list"
  DecodeAnySet :: "asn1_RawValue \<Rightarrow> error + AnySet"
  AnySet_Encode :: "AnySet \<Rightarrow> error + asn1_RawValue"

subsection \<open>\<open>EncapsulatedContentInfo.EContentValue\<close>\<close>

text \<open>
  Go's \<open>append(value, bytes...)\<close> on a nil \<open>value\<close>: appending no byte leaves it nil.
\<close>

definition append_bytes :: "byte list option \<Rightarrow> byte list \<Rightarrow> byte list option" where
  "append_bytes v bs = (case v of
      None \<Rightarrow> (if bs = [] then None else Some bs)
    | Some vs \<Rightarrow> Some (vs @ bs))"

text \<open>The loop over the segments of a constructed OCTET STRING.\<close>

function EContentValue_loop :: "byte list \<Rightarrow> byte list option \<Rightarrow> error + byte list option" where
  "EContentValue_loop rest v =
     (if length rest > 0
      then (case asn1_Unmarshal_RawValue rest of
              Inl e \<Rightarrow> Inl e
            | Inr (octets, rest') \<Rightarrow>
                if Class octets \<noteq> ClassUniversal \<or> Tag octets \<noteq> TagOctetString
                   \<or> IsCompound octets
                then Inl (ErrBadDataContent (Class octets) (Tag octets))
                else EContentValue_loop rest' (append_bytes v (slice_bytes (Bytes octets))))
      else Inr v)"
  by pat_completeness auto
termination
  by (relation "measure (\<lambda>(rest, v). length rest)")
     (auto dest: asn1_Unmarshal_RawValue_length)

declare EContentValue_loop.simps [simp del]

definition EContentValue :: "EncapsulatedContentInfo \<Rightarrow> error + byte list option" where
  "EContentValue eci = (case Bytes (EContent eci) of
      None \<Rightarrow> Inr None
    | Some bytes \<Rightarrow>
        (case asn1_Unmarshal_RawValue bytes of
           Inl e \<Rightarrow> Inl e
         | Inr (octets, rest) \<Rightarrow>
             if length rest > 0 then Inl ErrTrailingData
             else if Class octets \<noteq> ClassUniversal \<or> Tag octets \<noteq> TagOctetString
             then Inl (ErrBadDataContent (Class octets) (Tag octets))
             else if IsCompound octets
             then EContentValue_loop (slice_bytes (Bytes octets)) None
             else Inr (Bytes octets)))"

subsection \<open>Attributes\<close>

definition Attribute_Value :: "extern \<Rightarrow> Attribute \<Rightarrow> error + AnySet" where
  "Attribute_Value ext a = DecodeAnySet ext (RawValue a)"

fun GetValues_loop ::
  "extern \<Rightarrow> Attribute list \<Rightarrow> ObjectIdentifier \<Rightarrow> AnySet list \<Rightarrow> error + AnySet list" where
  "GetValues_loop ext [] oid vals = Inr vals"
| "GetValues_loop ext (attr # attrs) oid vals =
     (if OID_Equal (Type attr) oid
      then (case Attribute_Value ext attr of
              Inl e \<Rightarrow> Inl e
            | Inr val \<Rightarrow> GetValues_loop ext attrs oid (vals @ [val]))
      else GetValues_loop ext attrs oid vals)"

definition GetValues ::
  "extern \<Rightarrow> Attributes \<Rightarrow> ObjectIdentifier \<Rightarrow> error + AnySet list option" where
  "GetValues ext attrs oid = (case attrs of
      None \<Rightarrow> Inr None
    | Some as \<Rightarrow>
        (case GetValues_loop ext as oid [] of
           Inl e \<Rightarrow> Inl e
         | Inr vals \<Rightarrow> Inr (Some vals)))"

definition slice_list :: "'a list option \<Rightarrow> 'a list" where
  "slice_list s = (case s of None \<Rightarrow> [] | Some xs \<Rightarrow> xs)"

definition GetOnlyAttributeValueBytes ::
  "extern \<Rightarrow> Attributes \<Rightarrow> ObjectIdentifier \<Rightarrow> error + asn1_RawValue" where
  "GetOnlyAttributeValueBytes ext attrs oid = (case GetValues ext attrs oid of
      Inl e \<Rightarrow> Inl e
    | Inr vals \<Rightarrow>
        if length (slice_list vals) \<noteq> 1
        then Inl (ErrExpectedOneAttribute (length (slice_list vals)))
        else if length (Elements (slice_list vals ! 0)) \<noteq> 1
        then Inl (ErrExpectedOneAttributeValue (length (Elements (slice_list vals ! 0))))
        else Inr (Elements (slice_list vals ! 0) ! 0))"

subsection \<open>SignerInfo\<close>

definition issuerAndSerialNumberSID :: "SignerInfo \<Rightarrow> error + IssuerAndSerialNumber" where
  "issuerAndSerialNumberSID si =
     (if Class (SID si) \<noteq> ClassUniversal \<or> Tag (SID si) \<noteq> TagSequence then Inl ErrWrongType
      else (case asn1_Unmarshal_IssuerAndSerialNumber (FullBytes (SID si)) of
              Inl e \<Rightarrow> Inl e
            | Inr (isn, rest) \<Rightarrow>
                if length rest > 0 then Inl ErrTrailingData else Inr isn))"

definition subjectKeyIdentifierSID :: "SignerInfo \<Rightarrow> error + byte list option" where
  "subjectKeyIdentifierSID si =
     (if Class (SID si) \<noteq> ClassContextSpecific \<or> Tag (SID si) \<noteq> 0 then Inl ErrWrongType
      else Inr (Bytes (SID si)))"

definition matches_isn :: "IssuerAndSerialNumber \<Rightarrow> Certificate \<Rightarrow> bool" where
  "matches_isn isn cert =
     (bytes_Equal (RawIssuer cert) (FullBytes (Issuer isn))
      \<and> SerialNumber isn = cert_SerialNumber cert)"

definition matches_ski :: "byte list option \<Rightarrow> Certificate \<Rightarrow> bool" where
  "matches_ski ski cert =
     list_ex (\<lambda>ext. OID_Equal oidSubjectKeyIdentifier (Id ext)
                    \<and> bytes_Equal (slice_bytes ski) (Value ext)) (Extensions cert)"

definition FindCertificate :: "SignerInfo \<Rightarrow> Certificate list \<Rightarrow> error + Certificate" where
  "FindCertificate si certs =
     (if length certs = 0 then Inl ErrNoCertificates
      else if si_Version si = 1
      then (case issuerAndSerialNumberSID si of
              Inl e \<Rightarrow> Inl e
            | Inr isn \<Rightarrow>
                (case find (matches_isn isn) certs of
                   Some cert \<Rightarrow> Inr cert
                 | None \<Rightarrow> Inl ErrNoMatchingCertificate))
      else if si_Version si = 3
      then (case subjectKeyIdentifierSID si of
              Inl e \<Rightarrow> Inl e
            | Inr ski \<Rightarrow>
                (case find (matches_ski ski) certs of
                   Some cert \<Rightarrow> Inr cert
                 | None \<Rightarrow> Inl ErrNoMatchingCertificate))
      else Inl ErrUnknownSignerInfoVersion)"

definition Hash :: "extern \<Rightarrow> SignerInfo \<Rightarrow> error + crypto_Hash" where
  "Hash ext si =
     (let algo = OID_String (Algorithm (DigestAlgorithm si))
      in (case digestAlgorithmToHash algo of
            None \<Rightarrow> Inl (ErrUnknownDigestAlgorithm algo)
          | Some hash \<Rightarrow>
              if \<not> Hash_Available ext hash then Inl (ErrHashNotAvailable algo)
              else Inr hash))"

definition X509SignatureAlgorithm :: "SignerInfo \<Rightarrow> x509_SignatureAlgorithm" where
  "X509SignatureAlgorithm si =
     (let sigOID = OID_String (Algorithm (SignatureAlgorithm si));
          digestOID = OID_String (Algorithm (DigestAlgorithm si))
      in (case signatureAlgorithms sigOID of
            None \<Rightarrow> UnknownSignatureAlgorithm
          | Some m \<Rightarrow>
              (case m digestOID of
                 None \<Rightarrow> UnknownSignatureAlgorithm
               | Some alg \<Rightarrow> alg)))"

subsection \<open>Building attributes and signer identifiers\<close>

definition NewAnySet :: "asn1_RawValue list \<Rightarrow> AnySet" where
  "NewAnySet elts = \<lparr>Elements = elts\<rparr>"

definition NewAttribute :: "extern \<Rightarrow> ObjectIdentifier \<Rightarrow> asn1_Value \<Rightarrow> error + Attribute" where
  "NewAttribute ext typ val = (case asn1_Marshal ext val of
      Inl e \<Rightarrow> Inl e
    | Inr der \<Rightarrow>
        (case asn1_Unmarshal_RawValue der of
           Inl e \<Rightarrow> Inl e
         | Inr (rv, rest) \<Rightarrow>
             (case AnySet_Encode ext (NewAnySet [rv]) of
                Inl e \<Rightarrow> Inl e
              | Inr raw \<Rightarrow> Inr \<lparr>Type = typ, RawValue = raw\<rparr>)))"

definition MarshaledForSigning :: "extern \<Rightarrow> Attributes \<Rightarrow> error + byte list" where
  "MarshaledForSigning ext attrs = (case asn1_Marshal ext (AttributesSetValue attrs) of
      Inl e \<Rightarrow> Inl e
    | Inr seq \<Rightarrow>
        (case asn1_Unmarshal_RawValue seq of
           Inl e \<Rightarrow> Inl e
         | Inr (raw, rest) \<Rightarrow> Inr (slice_bytes (Bytes raw))))"

definition NewIssuerAndSerialNumber :: "extern \<Rightarrow> Certificate \<Rightarrow> error + asn1_RawValue" where
  "NewIssuerAndSerialNumber ext cert = (case asn1_Unmarshal_RawValue (RawIssuer cert) of
      Inl e \<Rightarrow> Inl e
    | Inr (issuer, rest) \<Rightarrow>
        (case asn1_Marshal ext (IssuerAndSerialNumberValue
                 \<lparr>Issuer = issuer, SerialNumber = cert_SerialNumber cert\<rparr>) of
           Inl e \<Rightarrow> Inl e
         | Inr der \<Rightarrow>
             (case asn1_Unmarshal_RawValue der of
                Inl e \<Rightarrow> Inl e
              | Inr (rv, rest') \<Rightarrow> Inr rv)))"

subsection \<open>\<open>SignedData.AddSignerInfo\<close>\<close>

text \<open>
  The methods of \<open>*SignedData\<close> change the value they are called on and return an error
  or nil: the model returns the SignedData as the call leaves it, also when it fails, and the
  error (\<open>None\<close> is nil).
\<close>

definition addCertificate :: "SignedData \<Rightarrow> Certificate \<Rightarrow> SignedData \<times> error option" where
  "addCertificate sd cert =
     (if list_ex (\<lambda>existing. bytes_Equal (slice_bytes (Bytes existing)) (Raw cert))
           (Certificates sd)
      then (sd, Some ErrCertificateAlreadyAdded)
      else (case asn1_Unmarshal_RawValue (Raw cert) of
              Inl e \<Rightarrow> (sd, Some e)
            | Inr (rv, rest) \<Rightarrow> (sd\<lparr>Certificates := Certificates sd @ [rv]\<rparr>, None)))"

definition addDigestAlgorithm :: "SignedData \<Rightarrow> AlgorithmIdentifier \<Rightarrow> SignedData" where
  "addDigestAlgorithm sd algo =
     (if list_ex (\<lambda>existing. OID_Equal (Algorithm existing) (Algorithm algo))
           (DigestAlgorithms sd)
      then sd
      else sd\<lparr>DigestAlgorithms := DigestAlgorithms sd @ [algo]\<rparr>)"

text \<open>
  The loop over the chain: \<open>pub\<close> is the signer's encoded public key, \<open>cert\<close> the
  certificate found so far (\<open>None\<close> is the nil pointer).
\<close>

fun AddSignerInfo_chain ::
  "byte list \<Rightarrow> SignedData \<Rightarrow> Certificate list \<Rightarrow> Certificate option
   \<Rightarrow> SignedData \<times> (error + Certificate option)" where
  "AddSignerInfo_chain pub sd [] cert = (sd, Inr cert)"
| "AddSignerInfo_chain pub sd (c # chain) cert =
     (case addCertificate sd c of
        (sd', Some e) \<Rightarrow> (sd', Inl e)
      | (sd', None) \<Rightarrow>
          (case MarshalPKIXPublicKey (cert_PublicKey c) of
             Inl e \<Rightarrow> (sd', Inl e)
           | Inr certPub \<Rightarrow>
               AddSignerInfo_chain pub sd' chain
                 (if bytes_Equal pub certPub then Some c else cert)))"

text \<open>
  From the signer identifier to the signature: the part of \<open>AddSignerInfo\<close> between the
  loop and the two registrations at its end. It reads the SignedData and changes nothing.
\<close>

definition AddSignerInfo_signer ::
  "extern \<Rightarrow> SignedData \<Rightarrow> Certificate \<Rightarrow> Signer \<Rightarrow> error + SignerInfo" where
  "AddSignerInfo_signer ext sd cert signer =
   (case NewIssuerAndSerialNumber ext cert of
      Inl e \<Rightarrow> Inl e
    | Inr sid \<Rightarrow>
   (case signatureAlgorithmToDigestAlgorithm (cert_SignatureAlgorithm cert) of
      None \<Rightarrow> Inl ErrUnsupportedDigestAlgorithm
    | Some digestAlgorithm \<Rightarrow>
   (case signatureAlgorithmToSignatureAlgorithm (cert_SignatureAlgorithm cert) of
      None \<Rightarrow> Inl ErrUnsupportedSignatureAlgorithm
    | Some signatureAlgorithm \<Rightarrow>
   (let si = \<lparr>si_Version = 1,
              SID = sid,
              DigestAlgorithm = \<lparr>Algorithm = digestAlgorithm, Parameters = zero_RawValue\<rparr>,
              SignedAttrs = None,
              SignatureAlgorithm = \<lparr>Algorithm = signatureAlgorithm, Parameters = zero_RawValue\<rparr>,
              Signature = [],
              UnsignedAttrs = None\<rparr>
    in
   (case EContentValue (EncapContentInfo sd) of
      Inl e \<Rightarrow> Inl e
    | Inr None \<Rightarrow> Inl ErrAlreadyDetached
    | Inr (Some content) \<Rightarrow>
   (case Hash ext si of
      Inl e \<Rightarrow> Inl e
    | Inr hash \<Rightarrow>
   (case NewAttribute ext oidAttributeMessageDigest (BytesValue (Hash_Sum ext hash content)) of
      Inl e \<Rightarrow> Inl e
    | Inr mdAttr \<Rightarrow>
   (case NewAttribute ext oidAttributeContentType (ObjectIdentifierValue oidData) of
      Inl e \<Rightarrow> Inl e
    | Inr ctAttr \<Rightarrow>
   (let si = si\<lparr>SignedAttrs := Some (slice_list (SignedAttrs si) @ [mdAttr, ctAttr])\<rparr>
    in
   (case MarshaledForSigning ext (SignedAttrs si) of
      Inl e \<Rightarrow> Inl e
    | Inr sm \<Rightarrow>
   (case Sign signer (Hash_Sum ext hash sm) hash of
      Inl e \<Rightarrow> Inl e
    | Inr sig \<Rightarrow> Inr (si\<lparr>Signature := sig\<rparr>))))))))))))"

definition AddSignerInfo ::
  "extern \<Rightarrow> SignedData \<Rightarrow> Certificate list \<Rightarrow> Signer \<Rightarrow> SignedData \<times> error option" where
  "AddSignerInfo ext sd chain signer =
   (case MarshalPKIXPublicKey (Public signer) of
      Inl e \<Rightarrow> (sd, Some e)
    | Inr pub \<Rightarrow>
   (case AddSignerInfo_chain pub sd chain None of
      (sd', Inl e) \<Rightarrow> (sd', Some e)
    | (sd', Inr None) \<Rightarrow> (sd', Some ErrNoCertificateMatchingSigner)
    | (sd', Inr (Some cert)) \<Rightarrow>
   (case AddSignerInfo_signer ext sd' cert signer of
      Inl e \<Rightarrow> (sd', Some e)
    | Inr si \<Rightarrow>
        (let sd'' = addDigestAlgorithm sd' (DigestAlgorithm si)
         in (sd''\<lparr>SignerInfos := SignerInfos sd'' @ [si]\<rparr>, None)))))"

section \<open>A concrete set of collaborators\<close>

text \<open>
  The properties below hold for every value of \<open>extern\<close>. To run the package on concrete
  inputs, this section gives one: the DER encoder of \<open>encoding/asn1\<close> for the four kinds of
  value the package marshals, the \<open>AnySet\<close> codec as the specification describes it, and a
  checksum in the place of the digests, which the package never looks into.
\<close>

subsection \<open>\<open>encoding/asn1\<close>: writing tag, length and value\<close>

text \<open>
  Lengths and identifier components are not negative here, so Go's shifts \<open>i >> 8\<close> and
  \<open>n >> 7\<close> are the divisions by 256 and by 128.
\<close>

fun lengthLength :: "nat \<Rightarrow> nat" where
  "lengthLength i = (if i > 255 then Suc (lengthLength (i div 256)) else 1)"

fun appendLength :: "nat \<Rightarrow> byte list" where
  "appendLength i = (if i > 255 then appendLength (i div 256) @ [of_nat i] else [of_nat i])"

declare lengthLength.simps [simp del] appendLength.simps [simp del]

fun base128_high :: "nat \<Rightarrow> byte list" where
  "base128_high n = (if n = 0 then [] else base128_high (n div 128) @ [(of_nat n AND 0x7f) OR 0x80])"

declare base128_high.simps [simp del]

definition appendBase128Int :: "int \<Rightarrow> byte list" where
  "appendBase128Int n =
     (if n = 0 then [0]
      else if n < 0 then []
      else base128_high (nat n div 128) @ [of_nat (nat n) AND 0x7f])"

definition appendTagAndLength :: "tagAndLength \<Rightarrow> byte list" where
  "appendTagAndLength t =
     (let b = push_bit 6 (of_int (tl_class t)) OR (if tl_isCompound t then 0x20 else 0)
      in (if tl_tag t \<ge> 31 then (b OR 0x1f) # appendBase128Int (tl_tag t)
          else [b OR of_int (tl_tag t)])
         @ (if tl_length t \<ge> 128
            then (0x80 OR of_nat (lengthLength (tl_length t))) # appendLength (tl_length t)
            else [of_nat (tl_length t)]))"


definition der_TLV :: "int \<Rightarrow> int \<Rightarrow> bool \<Rightarrow> byte list \<Rightarrow> byte list" where
  "der_TLV cls tg compound body =
     appendTagAndLength \<lparr>tl_class = cls, tl_tag = tg, tl_length = length body,
                         tl_isCompound = compound\<rparr> @ body"

definition marshal_RawValue :: "asn1_RawValue \<Rightarrow> byte list" where
  "marshal_RawValue rv =
     (if length (FullBytes rv) \<noteq> 0 then FullBytes rv
      else der_TLV (Class rv) (Tag rv) (IsCompound rv) (slice_bytes (Bytes rv)))"

definition marshal_ObjectIdentifier :: "ObjectIdentifier \<Rightarrow> error + byte list" where
  "marshal_ObjectIdentifier oid =
     (if length oid < 2 \<or> oid ! 0 > 2 \<or> (oid ! 0 < 2 \<and> oid ! 1 \<ge> 40)
      then Inl (StructuralError ''invalid object identifier'')
      else Inr (der_TLV ClassUniversal TagOID False
                  (appendBase128Int (oid ! 0 * 40 + oid ! 1)
                   @ concat (map appendBase128Int (drop 2 oid)))))"

text \<open>\<open>big.Int.Bytes\<close>: the absolute value, big-endian, without leading zeros.\<close>

fun nat_Bytes :: "nat \<Rightarrow> byte list" where
  "nat_Bytes n = (if n = 0 then [] else nat_Bytes (n div 256) @ [of_nat (n mod 256)])"

declare nat_Bytes.simps [simp del]

definition makeBigInt :: "int \<Rightarrow> byte list" where
  "makeBigInt n =
     (if n < 0
      then (let bytes = map (\<lambda>b. b XOR 0xff) (nat_Bytes (nat (- n - 1)))
            in if length bytes = 0 \<or> hd bytes AND 0x80 = 0 then 0xff # bytes else bytes)
      else if n = 0 then [0]
      else (let bytes = nat_Bytes (nat n)
            in if length bytes > 0 \<and> hd bytes AND 0x80 \<noteq> 0 then 0 # bytes else bytes))"

definition marshal_IssuerAndSerialNumber :: "IssuerAndSerialNumber \<Rightarrow> byte list" where
  "marshal_IssuerAndSerialNumber isn =
     der_TLV ClassUniversal TagSequence True
       (marshal_RawValue (Issuer isn)
        @ der_TLV ClassUniversal TagInteger False (makeBigInt (SerialNumber isn)))"

definition marshal_Attribute :: "Attribute \<Rightarrow> error + byte list" where
  "marshal_Attribute a = (case marshal_ObjectIdentifier (Type a) of
      Inl e \<Rightarrow> Inl e
    | Inr oid \<Rightarrow> Inr (der_TLV ClassUniversal TagSequence True (oid @ marshal_RawValue (RawValue a))))"

fun marshal_all :: "Attribute list \<Rightarrow> error + byte list list" where
  "marshal_all [] = Inr []"
| "marshal_all (a # as) = (case marshal_Attribute a of
      Inl e \<Rightarrow> Inl e
    | Inr der \<Rightarrow> (case marshal_all as of Inl e \<Rightarrow> Inl e | Inr ders \<Rightarrow> Inr (der # ders)))"

text \<open>
  The elements of a SET OF are written in the order of their encodings
  (\<open>bytes.Compare\<close>).
\<close>

fun bytes_le :: "byte list \<Rightarrow> byte list \<Rightarrow> bool" where
  "bytes_le [] ys = True"
| "bytes_le (x # xs) [] = False"
| "bytes_le (x # xs) (y # ys) = (x < y \<or> (x = y \<and> bytes_le xs ys))"

fun insert_encoding :: "byte list \<Rightarrow> byte list list \<Rightarrow> byte list list" where
  "insert_encoding x [] = [x]"
| "insert_encoding x (y # ys) = (if bytes_le x y then x # y # ys else y # insert_encoding x ys)"

definition sort_encodings :: "byte list list \<Rightarrow> byte list list" where
  "sort_encodings xs = foldr insert_encoding xs []"

definition marshal_AttributesSet :: "Attributes \<Rightarrow> error + byte list" where
  "marshal_AttributesSet attrs = (case marshal_all (slice_list attrs) of
      Inl e \<Rightarrow> Inl e
    | Inr ders \<Rightarrow>
        Inr (der_TLV ClassUniversal TagSequence True
               (der_TLV ClassUniversal TagSet True (concat (sort_encodings ders)))))"

definition std_Marshal :: "asn1_Value \<Rightarrow> error + byte list" where
  "std_Marshal v = (case v of
      BytesValue bs \<Rightarrow> Inr (der_TLV ClassUniversal TagOctetString False bs)
    | ObjectIdentifierValue oid \<Rightarrow> marshal_ObjectIdentifier oid
    | IssuerAndSerialNumberValue isn \<Rightarrow> Inr (marshal_IssuerAndSerialNumber isn)
    | AttributesSetValue attrs \<Rightarrow> marshal_AttributesSet attrs)"

subsection \<open>The \<open>AnySet\<close> codec\<close>

text \<open>The values a byte sequence splits into, one after the other.\<close>

function asn1_children :: "byte list \<Rightarrow> error + asn1_RawValue list" where
  "asn1_children der =
     (if length der > 0
      then (case asn1_Unmarshal_RawValue der of
              Inl e \<Rightarrow> Inl e
            | Inr (rv, rest) \<Rightarrow>
                (case asn1_children rest of
                   Inl e \<Rightarrow> Inl e
                 | Inr rvs \<Rightarrow> Inr (rv # rvs)))
      else Inr [])"
  by pat_completeness auto
termination
  by (relation "measure length") (auto dest: asn1_Unmarshal_RawValue_length)

declare asn1_children.simps [simp del]

text \<open>
  Modelled from the spec: \<open>DecodeAnySet\<close> (the file of the \<open>AnySet\<close> codec is not part of
  the sources at hand) "walks the set's immediate children as TLV primitives without
  interpreting their contents, yielding an ordered sequence of opaque typed values. [...]
  Error: any malformed child TLV during decode."
\<close>

definition std_DecodeAnySet :: "asn1_RawValue \<Rightarrow> error + AnySet" where
  "std_DecodeAnySet rv = (case asn1_children (slice_bytes (Bytes rv)) of
      Inl e \<Rightarrow> Inl e
    | Inr elts \<Rightarrow> Inr \<lparr>Elements = elts\<rparr>)"

text \<open>
  Modelled from the spec: \<open>AnySet.Encode\<close> (in the same missing file): "Encoding re-wraps
  the sequence under a SET tag."
\<close>

definition std_AnySet_Encode :: "AnySet \<Rightarrow> error + asn1_RawValue" where
  "std_AnySet_Encode as =
     (let body = concat (map marshal_RawValue (Elements as))
      in Inr \<lparr>Class = ClassUniversal, Tag = TagSet, IsCompound = True, Bytes = Some body,
              FullBytes = der_TLV ClassUniversal TagSet True body\<rparr>)"

subsection \<open>A checksum in the place of the digests\<close>

text \<open>\<open>crypto.Hash.Size\<close>: the length of a digest in bytes.\<close>

definition Hash_Size :: "crypto_Hash \<Rightarrow> nat" where
  "Hash_Size h = (case h of MD5 \<Rightarrow> 16 | SHA1 \<Rightarrow> 20 | SHA256 \<Rightarrow> 32 | SHA384 \<Rightarrow> 48 | SHA512 \<Rightarrow> 64)"

text \<open>
  A value of the digest's length that depends on the bytes digested: their number and their
  sum, after zeros.
\<close>

definition checksum :: "crypto_Hash \<Rightarrow> byte list \<Rightarrow> byte list" where
  "checksum h bs = replicate (Hash_Size h - 2) 0 @ [of_nat (length bs), foldl (+) 0 bs]"

definition std_extern :: extern where
  "std_extern = \<lparr>Hash_Available = (\<lambda>h. True),
                 Hash_Sum = checksum,
                 asn1_Marshal = std_Marshal,
                 DecodeAnySet = std_DecodeAnySet,
                 AnySet_Encode = std_AnySet_Encode\<rparr>"

section \<open>Notions used in the statements\<close>

text \<open>The registry as the specification lists it.\<close>

definition supported_digests :: "ObjectIdentifier list" where
  "supported_digests =
     [oidDigestAlgorithmSHA1, oidDigestAlgorithmMD5, oidDigestAlgorithmSHA256,
      oidDigestAlgorithmSHA384, oidDigestAlgorithmSHA512]"

definition registered_pairs :: "(ObjectIdentifier \<times> ObjectIdentifier) list" where
  "registered_pairs =
     [(oidSignatureAlgorithmRSA, oidDigestAlgorithmSHA1),
      (oidSignatureAlgorithmRSA, oidDigestAlgorithmMD5),
      (oidSignatureAlgorithmRSA, oidDigestAlgorithmSHA256),
      (oidSignatureAlgorithmRSA, oidDigestAlgorithmSHA384),
      (oidSignatureAlgorithmRSA, oidDigestAlgorithmSHA512),
      (oidSignatureAlgorithmECDSA, oidDigestAlgorithmSHA1),
      (oidSignatureAlgorithmECDSA, oidDigestAlgorithmSHA256),
      (oidSignatureAlgorithmECDSA, oidDigestAlgorithmSHA384),
      (oidSignatureAlgorithmECDSA, oidDigestAlgorithmSHA512)]"

text \<open>A segment of a constructed OCTET STRING as the rules allow it.\<close>

definition primitive_octet_string :: "asn1_RawValue \<Rightarrow> bool" where
  "primitive_octet_string rv =
     (Class rv = ClassUniversal \<and> Tag rv = TagOctetString \<and> \<not> IsCompound rv)"

text \<open>
  What the specification calls a registered certificate: the first value of the certificate's
  raw bytes. And the test of \<open>addCertificate\<close> for a certificate that is in the set
  already.
\<close>

definition decodes_to :: "Certificate \<Rightarrow> asn1_RawValue \<Rightarrow> bool" where
  "decodes_to c rv = (case asn1_Unmarshal_RawValue (Raw c) of
      Inl e \<Rightarrow> False
    | Inr (rv', rest) \<Rightarrow> rv' = rv)"

definition found_present :: "asn1_RawValue list \<Rightarrow> Certificate \<Rightarrow> bool" where
  "found_present certs c =
     list_ex (\<lambda>existing. bytes_Equal (slice_bytes (Bytes existing)) (Raw c)) certs"

section \<open>Example inputs\<close>

definition example_signer_info ::
  "ObjectIdentifier \<Rightarrow> ObjectIdentifier \<Rightarrow> int \<Rightarrow> asn1_RawValue \<Rightarrow> SignerInfo" where
  "example_signer_info sig dig v sid =
     \<lparr>si_Version = v, SID = sid,
      DigestAlgorithm = \<lparr>Algorithm = dig, Parameters = zero_RawValue\<rparr>,
      SignedAttrs = None,
      SignatureAlgorithm = \<lparr>Algorithm = sig, Parameters = zero_RawValue\<rparr>,
      Signature = [], UnsignedAttrs = None\<rparr>"

definition example_certificate :: "byte list \<Rightarrow> int \<Rightarrow> byte list \<Rightarrow> Extension list \<Rightarrow> Certificate" where
  "example_certificate raw serial key exts =
     \<lparr>Raw = raw, RawIssuer = [0x30, 0x00], cert_SerialNumber = serial,
      cert_PublicKey = PKIXPublicKey key, cert_SignatureAlgorithm = SHA256WithRSA,
      Extensions = exts\<rparr>"

definition example_cert_A :: Certificate where
  "example_cert_A = example_certificate [0x30, 0x03, 0x02, 0x01, 0x07] 7 [1, 2, 3]
     [\<lparr>Id = oidSubjectKeyIdentifier, Critical = False, Value = [0xAA, 0xBB]\<rparr>]"

definition example_cert_B :: Certificate where
  "example_cert_B = example_certificate [0x30, 0x03, 0x02, 0x01, 0x05] 5 [4, 5, 6] []"

definition example_sid_isn :: asn1_RawValue where
  "example_sid_isn = \<lparr>Class = 0, Tag = 16, IsCompound = True,
     Bytes = Some [0x30, 0x00, 0x02, 0x01, 0x05],
     FullBytes = [0x30, 0x05, 0x30, 0x00, 0x02, 0x01, 0x05]\<rparr>"

definition example_sid_ski :: asn1_RawValue where
  "example_sid_ski = \<lparr>Class = 2, Tag = 0, IsCompound = False,
     Bytes = Some [0xAA, 0xBB], FullBytes = [0x80, 0x02, 0xAA, 0xBB]\<rparr>"

abbreviation ex_si :: "int \<Rightarrow> asn1_RawValue \<Rightarrow> SignerInfo" where
  "ex_si v sid \<equiv> example_signer_info oidSignatureAlgorithmRSA oidDigestAlgorithmSHA256 v sid"

definition example_attribute :: "ObjectIdentifier \<Rightarrow> byte list \<Rightarrow> Attribute" where
  "example_attribute oid body =
     \<lparr>Type = oid,
      RawValue = \<lparr>Class = 0, Tag = 17, IsCompound = True, Bytes = Some body,
                  FullBytes = 0x31 # of_nat (length body) # body\<rparr>\<rparr>"

definition example_octets :: "byte \<Rightarrow> asn1_RawValue" where
  "example_octets b = \<lparr>Class = 0, Tag = 4, IsCompound = False, Bytes = Some [b],
                        FullBytes = [0x04, 0x01, b]\<rparr>"

definition example_eci :: "ObjectIdentifier \<Rightarrow> byte list option \<Rightarrow> EncapsulatedContentInfo" where
  "example_eci t content =
     \<lparr>EContentType = t,
      EContent = \<lparr>Class = 2, Tag = 0, IsCompound = True, Bytes = content, FullBytes = []\<rparr>\<rparr>"

definition example_signer :: Signer where
  "example_signer = \<lparr>Public = PKIXPublicKey [1, 2, 3], Sign = (\<lambda>digest h. Inr (0x53 # digest))\<rparr>"

definition example_signed_data :: "ObjectIdentifier \<Rightarrow> byte list option \<Rightarrow> SignedData" where
  "example_signed_data t content =
     \<lparr>Version = (if t = oidData then 1 else 3), DigestAlgorithms = [],
      EncapContentInfo = example_eci t content,
      Certificates = [], CRLs = [], SignerInfos = []\<rparr>"

text \<open>The checksum of the two bytes 0x68, 0x69 in the place of their SHA-256 digest.\<close>

definition example_digest :: "byte list" where
  "example_digest = [0, 0, 0, 0, 0, 0, 0, 0, 0, 0, 0, 0, 0, 0, 0, 0,
                     0, 0, 0, 0, 0, 0, 0, 0, 0, 0, 0, 0, 0, 0, 0x02, 0xd1]"

definition example_md_attribute :: Attribute where
  "example_md_attribute =
     \<lparr>Type = oidAttributeMessageDigest,
      RawValue = \<lparr>Class = 0, Tag = 17, IsCompound = True,
                  Bytes = Some (0x04 # 0x20 # example_digest),
                  FullBytes = 0x31 # 0x22 # 0x04 # 0x20 # example_digest\<rparr>\<rparr>"

definition example_ct_attribute :: Attribute where
  "example_ct_attribute =
     \<lparr>Type = oidAttributeContentType,
      RawValue = \<lparr>Class = 0, Tag = 17, IsCompound = True,
                  Bytes = Some [0x06, 0x09, 0x2a, 0x86, 0x48, 0x86, 0xf7, 0x0d, 0x01, 0x07, 0x01],
                  FullBytes = [0x31, 0x0b, 0x06, 0x09, 0x2a, 0x86, 0x48, 0x86, 0xf7, 0x0d, 0x01,
                               0x07, 0x01]\<rparr>\<rparr>"

text \<open>
  The encodings of the two attributes, the bytes that are signed for them (the content-type
  attribute first: its encoding is the smaller one) and the signature of \<open>example_signer\<close>
  for the checksum of these bytes.
\<close>

definition example_md_der :: "byte list" where
  "example_md_der = [0x30, 0x2f, 0x06, 0x09, 0x2a, 0x86, 0x48, 0x86, 0xf7, 0x0d, 0x01, 0x09, 0x04,
                     0x31, 0x22, 0x04, 0x20] @ example_digest"

definition example_ct_der :: "byte list" where
  "example_ct_der = [0x30, 0x18, 0x06, 0x09, 0x2a, 0x86, 0x48, 0x86, 0xf7, 0x0d, 0x01, 0x09, 0x03,
                     0x31, 0x0b, 0x06, 0x09, 0x2a, 0x86, 0x48, 0x86, 0xf7, 0x0d, 0x01, 0x07, 0x01]"

definition example_signed_bytes :: "byte list" where
  "example_signed_bytes = 0x31 # 0x4b # example_ct_der @ example_md_der"

definition example_signature :: "byte list" where
  "example_signature = [0x53, 0, 0, 0, 0, 0, 0, 0, 0, 0, 0, 0, 0, 0, 0, 0, 0,
                        0, 0, 0, 0, 0, 0, 0, 0, 0, 0, 0, 0, 0, 0, 0x4d, 0x80]"

definition example_built_signer_info :: SignerInfo where
  "example_built_signer_info =
     \<lparr>si_Version = 1,
      SID = \<lparr>Class = 0, Tag = 16, IsCompound = True, Bytes = Some [0x30, 0x00, 0x02, 0x01, 0x07],
             FullBytes = [0x30, 0x05, 0x30, 0x00, 0x02, 0x01, 0x07]\<rparr>,
      DigestAlgorithm = \<lparr>Algorithm = oidDigestAlgorithmSHA256, Parameters = zero_RawValue\<rparr>,
      SignedAttrs = Some [example_md_attribute, example_ct_attribute],
      SignatureAlgorithm = \<lparr>Algorithm = oidSignatureAlgorithmRSA, Parameters = zero_RawValue\<rparr>,
      Signature = example_signature,
      UnsignedAttrs = None\<rparr>"

definition example_raw_A :: asn1_RawValue where
  "example_raw_A = \<lparr>Class = 0, Tag = 16, IsCompound = True, Bytes = Some [0x02, 0x01, 0x07],
                     FullBytes = [0x30, 0x03, 0x02, 0x01, 0x07]\<rparr>"

definition example_raw_B :: asn1_RawValue where
  "example_raw_B = \<lparr>Class = 0, Tag = 16, IsCompound = True, Bytes = Some [0x02, 0x01, 0x05],
                     FullBytes = [0x30, 0x03, 0x02, 0x01, 0x05]\<rparr>"

definition example_content :: "byte list option" where
  "example_content = Some [0x04, 0x02, 0x68, 0x69]"

definition example_cert_C :: Certificate where
  "example_cert_C = example_cert_A\<lparr>cert_SignatureAlgorithm := PureEd25519\<rparr>"

section \<open>Properties\<close>

text \<open>
  C3. For every encapsulated content info, \<open>NewSignedData\<close> returns a SignedData (never an
  error) whose version is 1 when the content type equals id-data (1.2.840.113549.1.7.1) and
  3 otherwise.
\<close>

theorem NewSignedData_version:
  "\<exists>sd. NewSignedData eci = Inr sd \<and>
        Version sd = (if EContentType eci = [1, 2, 840, 113549, 1, 7, 1] then 1 else 3)"
  by (simp add: NewSignedData_def IsTypeData_def OID_Equal_def oidData_def)

subsection \<open>Object identifiers as strings\<close>

lemmas oid_defs =
  oidData_def oidSignedData_def oidTSTInfo_def oidAttributeContentType_def
  oidAttributeMessageDigest_def oidAttributeSigningTime_def oidSignatureAlgorithmRSA_def
  oidSignatureAlgorithmECDSA_def oidDigestAlgorithmSHA1_def oidDigestAlgorithmMD5_def
  oidDigestAlgorithmSHA256_def oidDigestAlgorithmSHA384_def oidDigestAlgorithmSHA512_def
  oidSubjectKeyIdentifier_def

lemma digit_char_in: "digit_char d \<in> set ''0123456789''"
  unfolding digit_char_def by (rule nth_mem) simp

lemma digit_char_inj:
  assumes "a < 10" "b < 10" "digit_char a = digit_char b"
  shows "a = b"
proof -
  have d: "distinct ''0123456789''" by simp
  have "a mod 10 = b mod 10"
    using assms(3) d unfolding digit_char_def
    by (subst (asm) nth_eq_iff_index_eq) simp_all
  with assms show ?thesis by simp
qed

lemma format_nat_digits: "set (format_nat n) \<subseteq> set ''0123456789''"
proof (induction n rule: format_nat.induct)
  case (1 n)
  show ?case
  proof (cases "n < 10")
    case True
    then show ?thesis using digit_char_in [of n] by (subst format_nat.simps) simp
  next
    case False
    then show ?thesis using 1 digit_char_in [of "n mod 10"]
      by (subst format_nat.simps) simp
  qed
qed

lemma format_nat_not_Nil: "format_nat n \<noteq> []"
  by (subst format_nat.simps) simp

lemma format_nat_length_one: "length (format_nat n) = Suc 0 \<longleftrightarrow> n < 10"
  by (subst format_nat.simps) (simp add: format_nat_not_Nil)

lemma format_nat_inj: "format_nat n = format_nat m \<Longrightarrow> n = m"
proof (induction n arbitrary: m rule: format_nat.induct)
  case (1 n)
  show ?case
  proof (cases "n < 10")
    case True
    then have "length (format_nat n) = Suc 0" by (simp add: format_nat_length_one)
    with "1.prems" have m: "m < 10" by (simp add: format_nat_length_one)
    from True m "1.prems" have "digit_char n = digit_char m"
      by (simp add: format_nat.simps [of n] format_nat.simps [of m])
    with True m show ?thesis by (rule digit_char_inj)
  next
    case False
    then have "length (format_nat n) \<noteq> Suc 0" by (simp add: format_nat_length_one)
    with "1.prems" have m: "\<not> m < 10" by (simp add: format_nat_length_one)
    from False m "1.prems" have
      "format_nat (n div 10) @ [digit_char (n mod 10)] = format_nat (m div 10) @ [digit_char (m mod 10)]"
      by (simp add: format_nat.simps [of n] format_nat.simps [of m])
    then have a: "format_nat (n div 10) = format_nat (m div 10)"
      and b: "digit_char (n mod 10) = digit_char (m mod 10)" by simp_all
    from "1.IH" [OF False a] have "n div 10 = m div 10" .
    moreover from b have "n mod 10 = m mod 10" by (intro digit_char_inj) simp_all
    ultimately have "n div 10 * 10 + n mod 10 = m div 10 * 10 + m mod 10" by simp
    then show ?thesis by (simp only: div_mult_mod_eq)
  qed
qed

lemma format_nat_no_dot: "CHR ''.'' \<notin> set (format_nat n)"
proof
  assume "CHR ''.'' \<in> set (format_nat n)"
  with format_nat_digits [of n] have "CHR ''.'' \<in> set ''0123456789''" by (rule subsetD)
  then show False by simp
qed

lemma format_int_no_dot: "CHR ''.'' \<notin> set (format_int v)"
  by (simp add: format_int_def format_nat_no_dot)

lemma format_int_not_Nil: "format_int v \<noteq> []"
  by (simp add: format_int_def format_nat_not_Nil)

lemma hd_format_nat: "hd (format_nat n) \<noteq> CHR ''-''"
proof
  assume h: "hd (format_nat n) = CHR ''-''"
  have "hd (format_nat n) \<in> set (format_nat n)" by (simp add: format_nat_not_Nil)
  with format_nat_digits [of n] have "hd (format_nat n) \<in> set ''0123456789''" by (rule subsetD)
  with h show False by simp
qed

lemma hd_format_int: "hd (format_int v) = CHR ''-'' \<longleftrightarrow> v < 0"
  by (simp add: format_int_def hd_format_nat)

lemma format_int_inj:
  assumes a: "format_int v = format_int w"
  shows "v = w"
proof -
  from a have "hd (format_int v) = hd (format_int w)" by simp
  then have s: "v < 0 \<longleftrightarrow> w < 0" using hd_format_int [of v] hd_format_int [of w] by simp
  show ?thesis
  proof (cases "v < 0")
    case True
    with s a have "format_nat (nat (- v)) = format_nat (nat (- w))" by (simp add: format_int_def)
    then have "nat (- v) = nat (- w)" by (rule format_nat_inj)
    with True s show ?thesis by simp
  next
    case False
    with s a have "format_nat (nat v) = format_nat (nat w)" by (simp add: format_int_def)
    then have "nat v = nat w" by (rule format_nat_inj)
    with False s show ?thesis by simp
  qed
qed

lemma OID_String_Cons:
  "OID_String (v # vs) = format_int v @ (if vs = [] then [] else CHR ''.'' # OID_String vs)"
  by (cases vs) simp_all

lemma OID_String_Nil_iff: "OID_String oid = [] \<longleftrightarrow> oid = []"
  by (cases oid) (simp_all add: OID_String_Cons format_int_not_Nil)

lemma dotted_split:
  assumes "CHR ''.'' \<notin> set a" "CHR ''.'' \<notin> set b"
    and "a @ (if r = [] then [] else CHR ''.'' # r) = b @ (if s = [] then [] else CHR ''.'' # s)"
  shows "a = b \<and> r = s"
proof -
  have ta: "takeWhile (\<lambda>c. c \<noteq> CHR ''.'') (a @ (if r = [] then [] else CHR ''.'' # r)) = a"
    using assms(1) by (cases "r = []") (auto simp: takeWhile_tail takeWhile_eq_all_conv)
  have tb: "takeWhile (\<lambda>c. c \<noteq> CHR ''.'') (b @ (if s = [] then [] else CHR ''.'' # s)) = b"
    using assms(2) by (cases "s = []") (auto simp: takeWhile_tail takeWhile_eq_all_conv)
  from ta tb assms(3) have ab: "a = b" by simp
  with assms(3) have "(if r = [] then [] else CHR ''.'' # r) = (if s = [] then [] else CHR ''.'' # s)"
    by simp
  then have "r = s" by (auto split: if_splits)
  with ab show ?thesis by simp
qed

lemma OID_String_inj: "OID_String xs = OID_String ys \<Longrightarrow> xs = ys"
proof (induction xs arbitrary: ys)
  case Nil
  then show ?case using OID_String_Nil_iff [of ys] by simp
next
  case (Cons v vs)
  then obtain w ws where ys: "ys = w # ws"
    using OID_String_Nil_iff [of "v # vs"] by (cases ys) auto
  from Cons.prems ys have
    "format_int v @ (if OID_String vs = [] then [] else CHR ''.'' # OID_String vs)
     = format_int w @ (if OID_String ws = [] then [] else CHR ''.'' # OID_String ws)"
    by (simp add: OID_String_Cons OID_String_Nil_iff)
  from dotted_split [OF format_int_no_dot format_int_no_dot this]
  have "format_int v = format_int w" and "OID_String vs = OID_String ws" by simp_all
  then show ?case using ys Cons.IH format_int_inj by simp
qed

lemma OID_String_eq_iff [simp]: "OID_String xs = OID_String ys \<longleftrightarrow> xs = ys"
  using OID_String_inj by auto

subsection \<open>The algorithm tables\<close>

lemma digestAlgorithmToHash_String:
  "digestAlgorithmToHash (OID_String oid) =
     (if oid = oidDigestAlgorithmSHA1 then Some SHA1
      else if oid = oidDigestAlgorithmMD5 then Some MD5
      else if oid = oidDigestAlgorithmSHA256 then Some SHA256
      else if oid = oidDigestAlgorithmSHA384 then Some SHA384
      else if oid = oidDigestAlgorithmSHA512 then Some SHA512
      else None)"
  by (auto simp: digestAlgorithmToHash_def)

lemma signatureAlgorithms_RSA:
  "signatureAlgorithms (OID_String oidSignatureAlgorithmRSA) = Some (map_of
         [(OID_String oidDigestAlgorithmSHA1, SHA1WithRSA),
          (OID_String oidDigestAlgorithmMD5, MD5WithRSA),
          (OID_String oidDigestAlgorithmSHA256, SHA256WithRSA),
          (OID_String oidDigestAlgorithmSHA384, SHA384WithRSA),
          (OID_String oidDigestAlgorithmSHA512, SHA512WithRSA)])"
  by (simp add: signatureAlgorithms_def)

lemma RSA_neq_ECDSA: "oidSignatureAlgorithmECDSA \<noteq> oidSignatureAlgorithmRSA"
  by (simp add: oidSignatureAlgorithmECDSA_def oidSignatureAlgorithmRSA_def)

lemma signatureAlgorithms_ECDSA:
  "signatureAlgorithms (OID_String oidSignatureAlgorithmECDSA) = Some (map_of
         [(OID_String oidDigestAlgorithmSHA1, ECDSAWithSHA1),
          (OID_String oidDigestAlgorithmSHA256, ECDSAWithSHA256),
          (OID_String oidDigestAlgorithmSHA384, ECDSAWithSHA384),
          (OID_String oidDigestAlgorithmSHA512, ECDSAWithSHA512)])"
  using RSA_neq_ECDSA by (simp add: signatureAlgorithms_def)

lemma signatureAlgorithms_other:
  "sig \<noteq> oidSignatureAlgorithmRSA \<Longrightarrow> sig \<noteq> oidSignatureAlgorithmECDSA \<Longrightarrow>
   signatureAlgorithms (OID_String sig) = None"
  by (auto simp: signatureAlgorithms_def)

lemma X509SignatureAlgorithm_table:
  "X509SignatureAlgorithm si =
     (let s = Algorithm (SignatureAlgorithm si); d = Algorithm (DigestAlgorithm si)
      in if s = oidSignatureAlgorithmRSA
         then (if d = oidDigestAlgorithmSHA1 then SHA1WithRSA
               else if d = oidDigestAlgorithmMD5 then MD5WithRSA
               else if d = oidDigestAlgorithmSHA256 then SHA256WithRSA
               else if d = oidDigestAlgorithmSHA384 then SHA384WithRSA
               else if d = oidDigestAlgorithmSHA512 then SHA512WithRSA
               else UnknownSignatureAlgorithm)
         else if s = oidSignatureAlgorithmECDSA
         then (if d = oidDigestAlgorithmSHA1 then ECDSAWithSHA1
               else if d = oidDigestAlgorithmSHA256 then ECDSAWithSHA256
               else if d = oidDigestAlgorithmSHA384 then ECDSAWithSHA384
               else if d = oidDigestAlgorithmSHA512 then ECDSAWithSHA512
               else UnknownSignatureAlgorithm)
         else UnknownSignatureAlgorithm)"
proof -
  consider "Algorithm (SignatureAlgorithm si) = oidSignatureAlgorithmRSA"
    | "Algorithm (SignatureAlgorithm si) = oidSignatureAlgorithmECDSA"
    | "Algorithm (SignatureAlgorithm si) \<noteq> oidSignatureAlgorithmRSA"
      "Algorithm (SignatureAlgorithm si) \<noteq> oidSignatureAlgorithmECDSA" by blast
  then show ?thesis
  proof cases
    case 1
    then show ?thesis
      by (auto simp: X509SignatureAlgorithm_def signatureAlgorithms_RSA Let_def)
  next
    case 2
    then show ?thesis
      using RSA_neq_ECDSA
      by (auto simp: X509SignatureAlgorithm_def signatureAlgorithms_ECDSA Let_def)
  next
    case 3
    then show ?thesis
      by (simp add: X509SignatureAlgorithm_def signatureAlgorithms_other Let_def)
  qed
qed

lemma X509SignatureAlgorithm_registered:
  "X509SignatureAlgorithm si = UnknownSignatureAlgorithm \<longleftrightarrow>
   (Algorithm (SignatureAlgorithm si), Algorithm (DigestAlgorithm si)) \<notin> set registered_pairs"
  unfolding X509SignatureAlgorithm_table registered_pairs_def Let_def
  by (auto simp: oid_defs)

lemma Hash_unknown:
  assumes "Algorithm (DigestAlgorithm si) \<notin> {oidDigestAlgorithmSHA1, oidDigestAlgorithmMD5,
     oidDigestAlgorithmSHA256, oidDigestAlgorithmSHA384, oidDigestAlgorithmSHA512}"
  shows "Hash ext si = Inl (ErrUnknownDigestAlgorithm (OID_String (Algorithm (DigestAlgorithm si))))"
  using assms by (simp add: Hash_def digestAlgorithmToHash_String)

lemma Hash_known:
  assumes "Algorithm (DigestAlgorithm si) \<in> set supported_digests"
  shows "Hash ext si \<noteq> Inl (ErrUnknownDigestAlgorithm a)"
  using assms unfolding supported_digests_def
  by (auto simp: Hash_def digestAlgorithmToHash_String)

lemmas asn1_consts = ClassUniversal_def ClassContextSpecific_def TagInteger_def
  TagOctetString_def TagOID_def TagSequence_def TagSet_def

lemmas parse_defs = asn1_Unmarshal_RawValue_def parseTagAndLength_def parseTag_def
  parseLength_def

text \<open>
  C8 (as amended). \<open>SignerInfo.Hash\<close> returns the error "unknown digest algorithm"
  exactly for the digest OIDs outside the five supported digests. For a (signature OID,
  digest OID) pair that is not in the registry, and for no other pair,
  \<open>X509SignatureAlgorithm\<close> returns the value \<open>UnknownSignatureAlgorithm\<close> (the zero
  value of its result type): the function has no error result and reports none.
\<close>

theorem algorithm_resolution_unregistered:
  "(Hash ext si = Inl (ErrUnknownDigestAlgorithm (OID_String (Algorithm (DigestAlgorithm si))))
      \<longleftrightarrow> Algorithm (DigestAlgorithm si) \<notin> set supported_digests)
   \<and> (X509SignatureAlgorithm si = UnknownSignatureAlgorithm
      \<longleftrightarrow> (Algorithm (SignatureAlgorithm si), Algorithm (DigestAlgorithm si))
            \<notin> set registered_pairs)"
  using Hash_unknown [of si ext] Hash_known [of si ext] X509SignatureAlgorithm_registered [of si]
  by (auto simp: supported_digests_def)

theorem algorithm_resolution_unregistered_witness:
  "Hash std_extern (example_signer_info oidSignatureAlgorithmRSA [1, 2, 3] 1 zero_RawValue)
     = Inl (ErrUnknownDigestAlgorithm ''1.2.3'')
   \<and> X509SignatureAlgorithm (example_signer_info oidSignatureAlgorithmRSA [1, 2, 3] 1 zero_RawValue)
     = UnknownSignatureAlgorithm"
  using algorithm_resolution_unregistered
    [where si = "example_signer_info oidSignatureAlgorithmRSA [1, 2, 3] 1 zero_RawValue"
       and ext = std_extern]
  by (simp add: example_signer_info_def supported_digests_def registered_pairs_def oid_defs
      format_int_def format_nat.simps digit_char_def)

text \<open>
  C8 as stated fails: for ECDSA with MD5, a pair the registry does not hold, resolving the
  signature algorithm returns a value, not an error.
\<close>

theorem X509SignatureAlgorithm_reports_no_error:
  "X509SignatureAlgorithm
     (example_signer_info oidSignatureAlgorithmECDSA oidDigestAlgorithmMD5 1 zero_RawValue)
   = UnknownSignatureAlgorithm"
  by (simp add: X509SignatureAlgorithm_registered)
     (simp add: example_signer_info_def registered_pairs_def oid_defs)

text \<open>
  C10. With an empty list of candidates \<open>FindCertificate\<close> returns the error
  "no certificates", whatever the version of the SignerInfo: the test comes before the
  dispatch on the version.
\<close>

theorem FindCertificate_no_certificates:
  "FindCertificate si [] = Inl ErrNoCertificates
   \<and> error_message ErrNoCertificates = ''no certificates''"
  by (simp add: FindCertificate_def error_message_def)

text \<open>
  C4 (as amended). For a list of candidates that is not empty, \<open>FindCertificate\<close>
  dispatches on the version. Version 1: an identifier that does not decode as an
  issuer-and-serial-number gives the decoding error; otherwise the result is the first
  candidate, in list order, whose raw issuer and serial number equal the identifier's, and
  "no matching certificate" when there is none. Version 3: the same with the subject key
  identifier and the candidates' subject-key-identifier extension values. Any other version:
  "unknown SignerInfo version".
\<close>

theorem FindCertificate_dispatch:
  assumes "certs \<noteq> []"
  shows
  "(si_Version si = 1 \<longrightarrow>
      (\<forall>e. issuerAndSerialNumberSID si = Inl e \<longrightarrow> FindCertificate si certs = Inl e) \<and>
      (\<forall>isn. issuerAndSerialNumberSID si = Inr isn \<longrightarrow>
         (\<forall>i<length certs. matches_isn isn (certs ! i) \<and> (\<forall>j<i. \<not> matches_isn isn (certs ! j))
              \<longrightarrow> FindCertificate si certs = Inr (certs ! i)) \<and>
         ((\<forall>c \<in> set certs. \<not> matches_isn isn c)
              \<longrightarrow> FindCertificate si certs = Inl ErrNoMatchingCertificate)))
   \<and> (si_Version si = 3 \<longrightarrow>
      (\<forall>e. subjectKeyIdentifierSID si = Inl e \<longrightarrow> FindCertificate si certs = Inl e) \<and>
      (\<forall>ski. subjectKeyIdentifierSID si = Inr ski \<longrightarrow>
         (\<forall>i<length certs. matches_ski ski (certs ! i) \<and> (\<forall>j<i. \<not> matches_ski ski (certs ! j))
              \<longrightarrow> FindCertificate si certs = Inr (certs ! i)) \<and>
         ((\<forall>c \<in> set certs. \<not> matches_ski ski c)
              \<longrightarrow> FindCertificate si certs = Inl ErrNoMatchingCertificate)))
   \<and> (si_Version si \<noteq> 1 \<and> si_Version si \<noteq> 3 \<longrightarrow>
      FindCertificate si certs = Inl ErrUnknownSignerInfoVersion)"
proof -
  have first: "find P certs = Some (certs ! i)"
    if "i < length certs" "P (certs ! i)" "\<forall>j<i. \<not> P (certs ! j)" for P :: "Certificate \<Rightarrow> bool" and i
    using that by (auto simp: find_Some_iff)
  have none: "find P certs = None" if "\<forall>c \<in> set certs. \<not> P c" for P :: "Certificate \<Rightarrow> bool"
    using that by (simp add: find_None_iff)
  show ?thesis
    using assms by (auto simp: FindCertificate_def first none)
qed

lemma example_sid_isn_decodes:
  "issuerAndSerialNumberSID (example_signer_info s d 1 example_sid_isn) =
     Inr \<lparr>Issuer = \<lparr>Class = 0, Tag = 16, IsCompound = True, Bytes = Some [],
                     FullBytes = [0x30, 0x00]\<rparr>, SerialNumber = 5\<rparr>"
  by (simp add: example_signer_info_def example_sid_isn_def issuerAndSerialNumberSID_def
      asn1_Unmarshal_IssuerAndSerialNumber_def parse_defs parseField_BigInt_def
      parseBigInt_def checkInteger_def SetBytes_def asn1_consts)

theorem FindCertificate_dispatch_witness:
  "FindCertificate (ex_si 1 example_sid_isn) [example_cert_A, example_cert_B] = Inr example_cert_B
   \<and> FindCertificate (ex_si 1 example_sid_isn) [example_cert_A] = Inl ErrNoMatchingCertificate
   \<and> FindCertificate (ex_si 3 example_sid_ski) [example_cert_B, example_cert_A] = Inr example_cert_A
   \<and> FindCertificate (ex_si 3 example_sid_isn) [example_cert_B, example_cert_A] = Inl ErrWrongType
   \<and> FindCertificate (ex_si 2 example_sid_isn) [example_cert_A, example_cert_B]
       = Inl ErrUnknownSignerInfoVersion"
proof -
  let ?isn = "\<lparr>Issuer = \<lparr>Class = 0, Tag = 16, IsCompound = True, Bytes = Some [],
                     FullBytes = [0x30, 0x00]\<rparr>, SerialNumber = 5\<rparr>"
  have v: "\<And>s d v sid. si_Version (example_signer_info s d v sid) = v"
    by (simp add: example_signer_info_def)
  have mA: "\<not> matches_isn ?isn example_cert_A" and mB: "matches_isn ?isn example_cert_B"
    by (simp_all add: matches_isn_def bytes_Equal_def example_cert_A_def example_cert_B_def
        example_certificate_def)
  have ski: "\<And>s d. subjectKeyIdentifierSID (example_signer_info s d 3 example_sid_ski) = Inr (Some [0xAA, 0xBB])"
    by (simp add: subjectKeyIdentifierSID_def example_signer_info_def example_sid_ski_def asn1_consts)
  have ski': "\<And>s d. subjectKeyIdentifierSID (example_signer_info s d 3 example_sid_isn) = Inl ErrWrongType"
    by (simp add: subjectKeyIdentifierSID_def example_signer_info_def example_sid_isn_def asn1_consts)
  have sA: "matches_ski (Some [0xAA, 0xBB]) example_cert_A" and sB: "\<not> matches_ski (Some [0xAA, 0xBB]) example_cert_B"
    by (simp_all add: matches_ski_def bytes_Equal_def OID_Equal_def slice_bytes_def
        example_cert_A_def example_cert_B_def example_certificate_def)
  have 1: "FindCertificate (ex_si 1 example_sid_isn) [example_cert_A, example_cert_B] = Inr example_cert_B"
    using FindCertificate_dispatch [of "[example_cert_A, example_cert_B]" "ex_si 1 example_sid_isn"]
      example_sid_isn_decodes mA mB
    by (auto simp: v less_Suc_eq dest!: spec [of _ 1])
  have 2: "FindCertificate (ex_si 1 example_sid_isn) [example_cert_A] = Inl ErrNoMatchingCertificate"
    using FindCertificate_dispatch [of "[example_cert_A]" "ex_si 1 example_sid_isn"]
      example_sid_isn_decodes mA
    by (simp add: v)
  have 3: "FindCertificate (ex_si 3 example_sid_ski) [example_cert_B, example_cert_A] = Inr example_cert_A"
    using FindCertificate_dispatch [of "[example_cert_B, example_cert_A]" "ex_si 3 example_sid_ski"]
      ski sA sB
    by (auto simp: v less_Suc_eq dest!: spec [of _ 1])
  have 4: "FindCertificate (ex_si 3 example_sid_isn) [example_cert_B, example_cert_A] = Inl ErrWrongType"
    using FindCertificate_dispatch [of "[example_cert_B, example_cert_A]" "ex_si 3 example_sid_isn"]
      ski'
    by (simp add: v)
  have 5: "FindCertificate (ex_si 2 example_sid_isn) [example_cert_A, example_cert_B]
       = Inl ErrUnknownSignerInfoVersion"
    using FindCertificate_dispatch [of "[example_cert_A, example_cert_B]" "ex_si 2 example_sid_isn"]
    by (simp add: v)
  from 1 2 3 4 5 show ?thesis by simp
qed

text \<open>
  C4 as stated fails on two inputs: version 2 with no candidate gives "no certificates",
  not "unknown SignerInfo version"; version 1 with an identifier that is a subject key
  identifier gives the wrong-type error, not "no matching certificate".
\<close>

theorem FindCertificate_other_errors:
  "FindCertificate (ex_si 2 example_sid_isn) [] = Inl ErrNoCertificates
   \<and> FindCertificate (ex_si 2 example_sid_isn) [] \<noteq> Inl ErrUnknownSignerInfoVersion
   \<and> FindCertificate (ex_si 1 example_sid_ski) [example_cert_A] = Inl ErrWrongType
   \<and> FindCertificate (ex_si 1 example_sid_ski) [example_cert_A] \<noteq> Inl ErrNoMatchingCertificate"
  by (simp add: FindCertificate_def example_signer_info_def issuerAndSerialNumberSID_def
      example_sid_ski_def asn1_consts)

subsection \<open>Attributes\<close>

lemma GetValues_loop_Inr:
  "GetValues_loop ext as oid vals = Inr r \<longleftrightarrow>
     (\<exists>ss. map (\<lambda>a. DecodeAnySet ext (RawValue a)) (filter (\<lambda>a. Type a = oid) as) = map Inr ss
           \<and> r = vals @ ss)"
proof (induction as arbitrary: vals)
  case Nil
  then show ?case by auto
next
  case (Cons a as)
  show ?case
  proof (cases "Type a = oid")
    case False
    then show ?thesis using Cons.IH by (simp add: OID_Equal_def)
  next
    case True
    show ?thesis
    proof (cases "DecodeAnySet ext (RawValue a)")
      case (Inl e)
      with True show ?thesis
        by (auto simp: OID_Equal_def Attribute_Value_def map_eq_Cons_conv)
    next
      case (Inr s)
      with True show ?thesis
        using Cons.IH [of "vals @ [s]"]
        by (auto simp: OID_Equal_def Attribute_Value_def map_eq_Cons_conv Cons_eq_map_conv)
    qed
  qed
qed

lemma GetOnlyAttributeValueBytes_Inr:
  "GetOnlyAttributeValueBytes ext attrs oid = Inr v \<longleftrightarrow>
     (\<exists>a s. filter (\<lambda>a. Type a = oid) (slice_list attrs) = [a]
          \<and> DecodeAnySet ext (RawValue a) = Inr s \<and> Elements s = [v])"
proof (cases attrs)
  case None
  then show ?thesis
    by (simp add: GetOnlyAttributeValueBytes_def GetValues_def slice_list_def)
next
  case (Some as)
  show ?thesis
  proof (cases "GetValues_loop ext as oid []")
    case (Inl e)
    then have "\<not> (\<exists>ss. map (\<lambda>a. DecodeAnySet ext (RawValue a)) (filter (\<lambda>a. Type a = oid) as) = map Inr ss)"
      using GetValues_loop_Inr [of ext as oid "[]"] by auto
    then have "\<not> (\<exists>a s. filter (\<lambda>a. Type a = oid) as = [a] \<and> DecodeAnySet ext (RawValue a) = Inr s)"
      by (metis (no_types, lifting) list.simps(8,9))
    with Inl Some show ?thesis
      by (auto simp: GetOnlyAttributeValueBytes_def GetValues_def slice_list_def)
  next
    case (Inr vals)
    then have m: "map (\<lambda>a. DecodeAnySet ext (RawValue a)) (filter (\<lambda>a. Type a = oid) as) = map Inr vals"
      using GetValues_loop_Inr [of ext as oid "[]" vals] by simp
    then have len: "length (filter (\<lambda>a. Type a = oid) as) = length vals"
      by (metis length_map)
    have r: "GetOnlyAttributeValueBytes ext attrs oid =
        (if length vals \<noteq> 1 then Inl (ErrExpectedOneAttribute (length vals))
         else if length (Elements (vals ! 0)) \<noteq> 1
         then Inl (ErrExpectedOneAttributeValue (length (Elements (vals ! 0))))
         else Inr (Elements (vals ! 0) ! 0))"
      using Inr Some by (simp add: GetOnlyAttributeValueBytes_def GetValues_def slice_list_def)
    show ?thesis
    proof
      assume a: "GetOnlyAttributeValueBytes ext attrs oid = Inr v"
      with r have l1: "length vals = 1" and l2: "length (Elements (vals ! 0)) = 1"
        and v: "v = Elements (vals ! 0) ! 0"
        by (auto split: if_splits)
      from l1 obtain s where vals: "vals = [s]" by (cases vals) auto
      with len obtain a where f: "filter (\<lambda>a. Type a = oid) as = [a]"
        by (cases "filter (\<lambda>a. Type a = oid) as") auto
      from m f vals have d: "DecodeAnySet ext (RawValue a) = Inr s" by simp
      from l2 vals obtain w where e: "Elements s = [w]" by (cases "Elements s") auto
      with v vals have "v = w" by simp
      with f d e Some show "\<exists>a s. filter (\<lambda>a. Type a = oid) (slice_list attrs) = [a]
          \<and> DecodeAnySet ext (RawValue a) = Inr s \<and> Elements s = [v]"
        by (auto simp: slice_list_def)
    next
      assume "\<exists>a s. filter (\<lambda>a. Type a = oid) (slice_list attrs) = [a]
          \<and> DecodeAnySet ext (RawValue a) = Inr s \<and> Elements s = [v]"
      then obtain a s where f: "filter (\<lambda>a. Type a = oid) as = [a]"
        and d: "DecodeAnySet ext (RawValue a) = Inr s" and e: "Elements s = [v]"
        using Some by (auto simp: slice_list_def)
      from m f d have "vals = [s]" by (cases vals) auto
      with r e show "GetOnlyAttributeValueBytes ext attrs oid = Inr v" by simp
    qed
  qed
qed

text \<open>
  C5. \<open>GetOnlyAttributeValueBytes\<close> returns a value exactly when exactly one attribute
  of the list has the OID and the value set of that attribute decodes to exactly one element,
  which is the value returned. It returns an error when no attribute or more than one
  attribute has the OID, and when the one attribute that has it carries no value or more than
  one.
\<close>

theorem GetOnlyAttributeValueBytes_single:
  "(GetOnlyAttributeValueBytes ext attrs oid = Inr v \<longleftrightarrow>
      (\<exists>a s. filter (\<lambda>a. Type a = oid) (slice_list attrs) = [a]
           \<and> DecodeAnySet ext (RawValue a) = Inr s \<and> Elements s = [v]))
   \<and> (length (filter (\<lambda>a. Type a = oid) (slice_list attrs)) \<noteq> 1 \<longrightarrow>
        (\<exists>e. GetOnlyAttributeValueBytes ext attrs oid = Inl e))
   \<and> (\<forall>a. filter (\<lambda>a. Type a = oid) (slice_list attrs) = [a]
           \<and> (\<forall>s. DecodeAnySet ext (RawValue a) = Inr s \<longrightarrow> length (Elements s) \<noteq> 1) \<longrightarrow>
        (\<exists>e. GetOnlyAttributeValueBytes ext attrs oid = Inl e))"
proof (intro conjI allI impI)
  show "GetOnlyAttributeValueBytes ext attrs oid = Inr v \<longleftrightarrow>
      (\<exists>a s. filter (\<lambda>a. Type a = oid) (slice_list attrs) = [a]
           \<and> DecodeAnySet ext (RawValue a) = Inr s \<and> Elements s = [v])"
    by (rule GetOnlyAttributeValueBytes_Inr)
next
  assume n: "length (filter (\<lambda>a. Type a = oid) (slice_list attrs)) \<noteq> 1"
  show "\<exists>e. GetOnlyAttributeValueBytes ext attrs oid = Inl e"
  proof (cases "GetOnlyAttributeValueBytes ext attrs oid")
    case (Inr w)
    with n show ?thesis using GetOnlyAttributeValueBytes_Inr [of ext attrs oid w] by auto
  qed simp
next
  fix a
  assume h: "filter (\<lambda>a. Type a = oid) (slice_list attrs) = [a]
      \<and> (\<forall>s. DecodeAnySet ext (RawValue a) = Inr s \<longrightarrow> length (Elements s) \<noteq> 1)"
  show "\<exists>e. GetOnlyAttributeValueBytes ext attrs oid = Inl e"
  proof (cases "GetOnlyAttributeValueBytes ext attrs oid")
    case (Inr w)
    with h show ?thesis using GetOnlyAttributeValueBytes_Inr [of ext attrs oid w] by auto
  qed simp
qed

lemma std_DecodeAnySet_example:
  "DecodeAnySet std_extern (RawValue (example_attribute oid [0x04, 0x01, b])) =
     Inr \<lparr>Elements = [example_octets b]\<rparr>"
  "DecodeAnySet std_extern (RawValue (example_attribute oid [0x04, 0x01, b, 0x04, 0x01, c])) =
     Inr \<lparr>Elements = [example_octets b, example_octets c]\<rparr>"
  "DecodeAnySet std_extern (RawValue (example_attribute oid [])) = Inr \<lparr>Elements = []\<rparr>"
  by (simp_all add: std_extern_def std_DecodeAnySet_def example_attribute_def example_octets_def
      slice_bytes_def asn1_children.simps parse_defs)

theorem GetOnlyAttributeValueBytes_single_witness:
  "GetOnlyAttributeValueBytes std_extern
      (Some [example_attribute oidAttributeSigningTime [0x04, 0x01, 0x01],
             example_attribute oidAttributeMessageDigest [0x04, 0x01, 0x02]])
      oidAttributeMessageDigest = Inr (example_octets 0x02)
   \<and> (\<exists>e. GetOnlyAttributeValueBytes std_extern None oidAttributeMessageDigest = Inl e)
   \<and> (\<exists>e. GetOnlyAttributeValueBytes std_extern
      (Some [example_attribute oidAttributeMessageDigest [0x04, 0x01, 0x01],
             example_attribute oidAttributeMessageDigest [0x04, 0x01, 0x02]])
      oidAttributeMessageDigest = Inl e)
   \<and> (\<exists>e. GetOnlyAttributeValueBytes std_extern
      (Some [example_attribute oidAttributeMessageDigest [0x04, 0x01, 0x01, 0x04, 0x01, 0x02]])
      oidAttributeMessageDigest = Inl e)"
proof -
  have t: "\<And>oid body. Type (example_attribute oid body) = oid"
    by (simp add: example_attribute_def)
  have n: "oidAttributeSigningTime \<noteq> oidAttributeMessageDigest"
    by (simp add: oid_defs)
  note inst = GetOnlyAttributeValueBytes_single [where ext = std_extern and oid = oidAttributeMessageDigest]
  have 1: "GetOnlyAttributeValueBytes std_extern
      (Some [example_attribute oidAttributeSigningTime [0x04, 0x01, 0x01],
             example_attribute oidAttributeMessageDigest [0x04, 0x01, 0x02]])
      oidAttributeMessageDigest = Inr (example_octets 0x02)"
    using inst [of "Some [example_attribute oidAttributeSigningTime [0x04, 0x01, 0x01],
             example_attribute oidAttributeMessageDigest [0x04, 0x01, 0x02]]" "example_octets 0x02"]
    by (simp add: slice_list_def t n std_DecodeAnySet_example)
  have 2: "\<exists>e. GetOnlyAttributeValueBytes std_extern None oidAttributeMessageDigest = Inl e"
    using inst [of None] by (simp add: slice_list_def)
  have 3: "\<exists>e. GetOnlyAttributeValueBytes std_extern
      (Some [example_attribute oidAttributeMessageDigest [0x04, 0x01, 0x01],
             example_attribute oidAttributeMessageDigest [0x04, 0x01, 0x02]])
      oidAttributeMessageDigest = Inl e"
    using inst [of "Some [example_attribute oidAttributeMessageDigest [0x04, 0x01, 0x01],
             example_attribute oidAttributeMessageDigest [0x04, 0x01, 0x02]]"]
    by (simp add: slice_list_def t)
  have 4: "\<exists>e. GetOnlyAttributeValueBytes std_extern
      (Some [example_attribute oidAttributeMessageDigest [0x04, 0x01, 0x01, 0x04, 0x01, 0x02]])
      oidAttributeMessageDigest = Inl e"
    using inst [of "Some [example_attribute oidAttributeMessageDigest [0x04, 0x01, 0x01, 0x04, 0x01, 0x02]]"]
    by (simp add: slice_list_def t std_DecodeAnySet_example)
  from 1 2 3 4 show ?thesis by simp
qed

subsection \<open>Encapsulated content\<close>

lemma slice_bytes_append_bytes [simp]: "slice_bytes (append_bytes v bs) = slice_bytes v @ bs"
  by (auto simp: slice_bytes_def append_bytes_def split: option.splits)

lemma asn1_children_Nil: "asn1_children bs = Inr [] \<longleftrightarrow> bs = []"
  by (subst asn1_children.simps) (auto split: sum.splits)

lemma asn1_children_Cons:
  "asn1_children bs = Inr (k # kids) \<longleftrightarrow>
     (\<exists>rest. asn1_Unmarshal_RawValue bs = Inr (k, rest) \<and> asn1_children rest = Inr kids)"
  by (subst asn1_children.simps)
     (auto split: sum.splits simp: asn1_Unmarshal_RawValue_def)

lemma EContentValue_loop_primitive:
  "asn1_children bs = Inr kids \<Longrightarrow> list_all primitive_octet_string kids \<Longrightarrow>
   \<exists>r. EContentValue_loop bs v = Inr r
       \<and> slice_bytes r = slice_bytes v @ concat (map (\<lambda>k. slice_bytes (Bytes k)) kids)"
proof (induction kids arbitrary: bs v)
  case Nil
  then show ?case by (simp add: asn1_children_Nil EContentValue_loop.simps)
next
  case (Cons k kids)
  from Cons.prems(1) obtain rest where u: "asn1_Unmarshal_RawValue bs = Inr (k, rest)"
    and c: "asn1_children rest = Inr kids" by (auto simp: asn1_children_Cons)
  from u have ne: "bs \<noteq> []" by (auto simp: asn1_Unmarshal_RawValue_def)
  from Cons.prems(2) have p: "primitive_octet_string k" and ps: "list_all primitive_octet_string kids"
    by simp_all
  from Cons.IH [OF c ps, of "append_bytes v (slice_bytes (Bytes k))"] obtain r where
    "EContentValue_loop rest (append_bytes v (slice_bytes (Bytes k))) = Inr r"
    "slice_bytes r = slice_bytes v @ slice_bytes (Bytes k) @ concat (map (\<lambda>k. slice_bytes (Bytes k)) kids)"
    by auto
  with u ne p show ?case
    by (subst EContentValue_loop.simps) (simp add: primitive_octet_string_def)
qed

lemma EContentValue_loop_not_primitive:
  "asn1_children bs = Inr kids \<Longrightarrow> \<not> list_all primitive_octet_string kids \<Longrightarrow>
   \<exists>c t. EContentValue_loop bs v = Inl (ErrBadDataContent c t)"
proof (induction kids arbitrary: bs v)
  case Nil
  then show ?case by simp
next
  case (Cons k kids)
  from Cons.prems(1) obtain rest where u: "asn1_Unmarshal_RawValue bs = Inr (k, rest)"
    and c: "asn1_children rest = Inr kids" by (auto simp: asn1_children_Cons)
  from u have ne: "bs \<noteq> []" by (auto simp: asn1_Unmarshal_RawValue_def)
  show ?case
  proof (cases "primitive_octet_string k")
    case False
    with u ne show ?thesis
      by (subst EContentValue_loop.simps) (auto simp: primitive_octet_string_def)
  next
    case True
    with Cons.prems(2) have "\<not> list_all primitive_octet_string kids" by simp
    from Cons.IH [OF c this, of "append_bytes v (slice_bytes (Bytes k))"] True u ne
    show ?thesis
      by (subst EContentValue_loop.simps) (auto simp: primitive_octet_string_def)
  qed
qed

lemma EContentValue_loop_malformed:
  "asn1_children bs = Inl e \<Longrightarrow> \<exists>e'. EContentValue_loop bs v = Inl e'"
proof (induction bs v rule: EContentValue_loop.induct)
  case (1 rest v)
  from "1.prems" have ne: "rest \<noteq> []" by (subst (asm) asn1_children.simps) auto
  show ?case
  proof (cases "asn1_Unmarshal_RawValue rest")
    case (Inl a)
    with ne show ?thesis by (subst EContentValue_loop.simps) simp
  next
    case (Inr p)
    obtain octets rest' where p: "p = (octets, rest')" by (cases p)
    with Inr "1.prems" ne have c: "asn1_children rest' = Inl e"
      by (subst (asm) asn1_children.simps) (auto split: sum.splits)
    show ?thesis
    proof (cases "primitive_octet_string octets")
      case False
      with Inr p ne show ?thesis
        by (subst EContentValue_loop.simps) (auto simp: primitive_octet_string_def)
    next
      case True
      with "1.IH" [of "(octets, rest')" octets rest'] ne Inr p c have
        "\<exists>e'. EContentValue_loop rest' (append_bytes v (slice_bytes (Bytes octets))) = Inl e'"
        by (simp add: primitive_octet_string_def)
      with True Inr p ne show ?thesis
        by (subst EContentValue_loop.simps) (auto simp: primitive_octet_string_def)
    qed
  qed
qed

text \<open>
  C6. \<open>EContentValue\<close> returns nil and no error when the eContent field is absent. When
  the field holds one universal OCTET STRING: a primitive one gives its content bytes as they
  are; a constructed one gives the concatenation, in order, of the content bytes of its
  immediate children when all of them are primitive octet strings, and an error when a child
  is itself constructed (a second level of nesting), is not an octet string, or is malformed.
\<close>

theorem EContentValue_rules:
  "(Bytes (EContent eci) = None \<longrightarrow> EContentValue eci = Inr None)
   \<and> (\<forall>bytes octets.
        Bytes (EContent eci) = Some bytes \<and> asn1_Unmarshal_RawValue bytes = Inr (octets, [])
        \<and> Class octets = ClassUniversal \<and> Tag octets = TagOctetString \<longrightarrow>
        (\<not> IsCompound octets \<longrightarrow> EContentValue eci = Inr (Bytes octets))
        \<and> (IsCompound octets \<longrightarrow>
            (\<forall>kids. asn1_children (slice_bytes (Bytes octets)) = Inr kids \<longrightarrow>
               (list_all primitive_octet_string kids \<longrightarrow>
                  (\<exists>r. EContentValue eci = Inr r
                      \<and> slice_bytes r = concat (map (\<lambda>k. slice_bytes (Bytes k)) kids)))
               \<and> (\<not> list_all primitive_octet_string kids \<longrightarrow>
                  (\<exists>c t. EContentValue eci = Inl (ErrBadDataContent c t))))
            \<and> (\<forall>e. asn1_children (slice_bytes (Bytes octets)) = Inl e \<longrightarrow>
                  (\<exists>e'. EContentValue eci = Inl e'))))"
proof (intro conjI allI impI; (elim conjE)?)
  assume "Bytes (EContent eci) = None"
  then show "EContentValue eci = Inr None" by (simp add: EContentValue_def)
next
  fix bytes octets
  assume a: "Bytes (EContent eci) = Some bytes" "asn1_Unmarshal_RawValue bytes = Inr (octets, [])"
    "Class octets = ClassUniversal" "Tag octets = TagOctetString"
  {
    assume "\<not> IsCompound octets"
    with a show "EContentValue eci = Inr (Bytes octets)" by (simp add: EContentValue_def)
  next
    fix kids
    assume c: "IsCompound octets" "asn1_children (slice_bytes (Bytes octets)) = Inr kids"
    {
      assume "list_all primitive_octet_string kids"
      from EContentValue_loop_primitive [OF c(2) this, of None] a c(1)
      show "\<exists>r. EContentValue eci = Inr r
                      \<and> slice_bytes r = concat (map (\<lambda>k. slice_bytes (Bytes k)) kids)"
        by (simp add: EContentValue_def slice_bytes_def)
    next
      assume "\<not> list_all primitive_octet_string kids"
      from EContentValue_loop_not_primitive [OF c(2) this, of None] a c(1)
      show "\<exists>c t. EContentValue eci = Inl (ErrBadDataContent c t)"
        by (simp add: EContentValue_def)
    }
  next
    fix e
    assume c: "IsCompound octets" "asn1_children (slice_bytes (Bytes octets)) = Inl e"
    from EContentValue_loop_malformed [OF c(2), of None] a c(1)
    show "\<exists>e'. EContentValue eci = Inl e'"
      by (simp add: EContentValue_def)
  }
qed

lemma example_children:
  "asn1_children [0x04, 0x02, 0x68, 0x65, 0x04, 0x01, 0x6c] =
     Inr [\<lparr>Class = 0, Tag = 4, IsCompound = False, Bytes = Some [0x68, 0x65],
            FullBytes = [0x04, 0x02, 0x68, 0x65]\<rparr>,
          \<lparr>Class = 0, Tag = 4, IsCompound = False, Bytes = Some [0x6c],
            FullBytes = [0x04, 0x01, 0x6c]\<rparr>]"
  "asn1_children [0x24, 0x02, 0x04, 0x00] =
     Inr [\<lparr>Class = 0, Tag = 4, IsCompound = True, Bytes = Some [0x04, 0x00],
            FullBytes = [0x24, 0x02, 0x04, 0x00]\<rparr>]"
  "asn1_children [0x02, 0x01, 0x05] =
     Inr [\<lparr>Class = 0, Tag = 2, IsCompound = False, Bytes = Some [0x05],
            FullBytes = [0x02, 0x01, 0x05]\<rparr>]"
  "asn1_children [0x04, 0x05] = Inl (SyntaxError ''data truncated'')"
  by (simp_all add: asn1_children.simps parse_defs)

lemma example_octet_strings:
  "asn1_Unmarshal_RawValue [0x04, 0x05, 0x68, 0x65, 0x6c, 0x6c, 0x6f] =
     Inr (\<lparr>Class = 0, Tag = 4, IsCompound = False, Bytes = Some [0x68, 0x65, 0x6c, 0x6c, 0x6f],
            FullBytes = [0x04, 0x05, 0x68, 0x65, 0x6c, 0x6c, 0x6f]\<rparr>, [])"
  "asn1_Unmarshal_RawValue [0x24, 0x07, 0x04, 0x02, 0x68, 0x65, 0x04, 0x01, 0x6c] =
     Inr (\<lparr>Class = 0, Tag = 4, IsCompound = True,
            Bytes = Some [0x04, 0x02, 0x68, 0x65, 0x04, 0x01, 0x6c],
            FullBytes = [0x24, 0x07, 0x04, 0x02, 0x68, 0x65, 0x04, 0x01, 0x6c]\<rparr>, [])"
  "asn1_Unmarshal_RawValue [0x24, 0x04, 0x24, 0x02, 0x04, 0x00] =
     Inr (\<lparr>Class = 0, Tag = 4, IsCompound = True, Bytes = Some [0x24, 0x02, 0x04, 0x00],
            FullBytes = [0x24, 0x04, 0x24, 0x02, 0x04, 0x00]\<rparr>, [])"
  "asn1_Unmarshal_RawValue [0x24, 0x03, 0x02, 0x01, 0x05] =
     Inr (\<lparr>Class = 0, Tag = 4, IsCompound = True, Bytes = Some [0x02, 0x01, 0x05],
            FullBytes = [0x24, 0x03, 0x02, 0x01, 0x05]\<rparr>, [])"
  "asn1_Unmarshal_RawValue [0x24, 0x02, 0x04, 0x05] =
     Inr (\<lparr>Class = 0, Tag = 4, IsCompound = True, Bytes = Some [0x04, 0x05],
            FullBytes = [0x24, 0x02, 0x04, 0x05]\<rparr>, [])"
  by (simp_all add: parse_defs)

theorem EContentValue_rules_witness:
  "EContentValue (example_eci oidData None) = Inr None
   \<and> EContentValue (example_eci oidData (Some [0x04, 0x05, 0x68, 0x65, 0x6c, 0x6c, 0x6f]))
       = Inr (Some [0x68, 0x65, 0x6c, 0x6c, 0x6f])
   \<and> (\<exists>r. EContentValue (example_eci oidData
               (Some [0x24, 0x07, 0x04, 0x02, 0x68, 0x65, 0x04, 0x01, 0x6c])) = Inr r
          \<and> slice_bytes r = [0x68, 0x65, 0x6c])
   \<and> (\<exists>c t. EContentValue (example_eci oidData (Some [0x24, 0x04, 0x24, 0x02, 0x04, 0x00]))
          = Inl (ErrBadDataContent c t))
   \<and> (\<exists>c t. EContentValue (example_eci oidData (Some [0x24, 0x03, 0x02, 0x01, 0x05]))
          = Inl (ErrBadDataContent c t))
   \<and> (\<exists>e. EContentValue (example_eci oidData (Some [0x24, 0x02, 0x04, 0x05])) = Inl e)"
proof -
  have b: "\<And>t c. Bytes (EContent (example_eci t c)) = c"
    by (simp add: example_eci_def)
  have 1: "EContentValue (example_eci oidData None) = Inr None"
    using EContentValue_rules [of "example_eci oidData None"] by (simp add: b)
  have 2: "EContentValue (example_eci oidData (Some [0x04, 0x05, 0x68, 0x65, 0x6c, 0x6c, 0x6f]))
       = Inr (Some [0x68, 0x65, 0x6c, 0x6c, 0x6f])"
    using EContentValue_rules
      [of "example_eci oidData (Some [0x04, 0x05, 0x68, 0x65, 0x6c, 0x6c, 0x6f])"]
    by (simp add: b example_octet_strings asn1_consts)
  have 3: "\<exists>r. EContentValue (example_eci oidData
               (Some [0x24, 0x07, 0x04, 0x02, 0x68, 0x65, 0x04, 0x01, 0x6c])) = Inr r
          \<and> slice_bytes r = [0x68, 0x65, 0x6c]"
    using EContentValue_rules
      [of "example_eci oidData (Some [0x24, 0x07, 0x04, 0x02, 0x68, 0x65, 0x04, 0x01, 0x6c])"]
    by (simp add: b example_octet_strings example_children asn1_consts slice_bytes_def
        primitive_octet_string_def)
  have 4: "\<exists>c t. EContentValue (example_eci oidData (Some [0x24, 0x04, 0x24, 0x02, 0x04, 0x00]))
          = Inl (ErrBadDataContent c t)"
    using EContentValue_rules
      [of "example_eci oidData (Some [0x24, 0x04, 0x24, 0x02, 0x04, 0x00])"]
    by (simp add: b example_octet_strings example_children asn1_consts slice_bytes_def
        primitive_octet_string_def)
  have 5: "\<exists>c t. EContentValue (example_eci oidData (Some [0x24, 0x03, 0x02, 0x01, 0x05]))
          = Inl (ErrBadDataContent c t)"
    using EContentValue_rules
      [of "example_eci oidData (Some [0x24, 0x03, 0x02, 0x01, 0x05])"]
    by (simp add: b example_octet_strings example_children asn1_consts slice_bytes_def
        primitive_octet_string_def)
  have 6: "\<exists>e. EContentValue (example_eci oidData (Some [0x24, 0x02, 0x04, 0x05])) = Inl e"
    using EContentValue_rules
      [of "example_eci oidData (Some [0x24, 0x02, 0x04, 0x05])"]
    by (simp add: b example_octet_strings example_children asn1_consts slice_bytes_def)
  from 1 2 3 4 5 6 show ?thesis by simp
qed

subsection \<open>Reading back what the encoder writes\<close>

















subsection \<open>Adding a signer\<close>

lemma addCertificate_cases:
  "addCertificate sd c =
     (if found_present (Certificates sd) c then (sd, Some ErrCertificateAlreadyAdded)
      else (case asn1_Unmarshal_RawValue (Raw c) of
              Inl e \<Rightarrow> (sd, Some e)
            | Inr (rv, rest) \<Rightarrow> (sd\<lparr>Certificates := Certificates sd @ [rv]\<rparr>, None)))"
  by (simp add: addCertificate_def found_present_def)

lemma addCertificate_None:
  "addCertificate sd c = (sd', None) \<longleftrightarrow>
     (\<not> found_present (Certificates sd) c
      \<and> (\<exists>rv. decodes_to c rv \<and> sd' = sd\<lparr>Certificates := Certificates sd @ [rv]\<rparr>))"
  by (auto simp: addCertificate_cases decodes_to_def split: sum.splits)

lemma addCertificate_Some:
  "addCertificate sd c = (sd', Some e) \<Longrightarrow> sd' = sd"
  by (auto simp: addCertificate_cases split: sum.splits if_splits)

lemma AddSignerInfo_chain_result:
  "AddSignerInfo_chain pub sd chain cert = (sd', r) \<Longrightarrow>
   \<exists>rvs. sd' = sd\<lparr>Certificates := Certificates sd @ rvs\<rparr>
     \<and> length rvs \<le> length chain
     \<and> list_all2 decodes_to (take (length rvs) chain) rvs
     \<and> (\<forall>i<length rvs. \<not> found_present (Certificates sd @ take i rvs) (chain ! i))
     \<and> (\<forall>c. r = Inr c \<longrightarrow> length rvs = length chain)"
proof (induction chain arbitrary: sd cert)
  case Nil
  then show ?case by auto
next
  case (Cons c chain)
  obtain sd1 err where a: "addCertificate sd c = (sd1, err)" by (cases "addCertificate sd c")
  show ?case
  proof (cases err)
    case (Some e)
    with a Cons.prems have "sd' = sd" "r = Inl e"
      by (auto dest: addCertificate_Some)
    then show ?thesis by (intro exI [of _ "[]"]) simp
  next
    case None
    with a obtain rv where nf: "\<not> found_present (Certificates sd) c" and d: "decodes_to c rv"
      and sd1: "sd1 = sd\<lparr>Certificates := Certificates sd @ [rv]\<rparr>"
      by (auto simp: addCertificate_None)
    show ?thesis
    proof (cases "MarshalPKIXPublicKey (cert_PublicKey c)")
      case (Inl e)
      with a None Cons.prems have "sd' = sd1" "r = Inl e" by auto
      with sd1 nf d show ?thesis by (intro exI [of _ "[rv]"]) simp
    next
      case (Inr certPub)
      with a None Cons.prems have
        "AddSignerInfo_chain pub sd1 chain (if bytes_Equal pub certPub then Some c else cert) = (sd', r)"
        by simp
      from Cons.IH [OF this] obtain rvs where
        s: "sd' = sd1\<lparr>Certificates := Certificates sd1 @ rvs\<rparr>"
        and l: "length rvs \<le> length chain"
        and dd: "list_all2 decodes_to (take (length rvs) chain) rvs"
        and nn: "\<forall>i<length rvs. \<not> found_present (Certificates sd1 @ take i rvs) (chain ! i)"
        and cc: "\<forall>c. r = Inr c \<longrightarrow> length rvs = length chain"
        by blast
      have "\<forall>i<length (rv # rvs). \<not> found_present (Certificates sd @ take i (rv # rvs)) ((c # chain) ! i)"
      proof (intro allI impI)
        fix i assume i: "i < length (rv # rvs)"
        show "\<not> found_present (Certificates sd @ take i (rv # rvs)) ((c # chain) ! i)"
        proof (cases i)
          case 0
          with nf show ?thesis by simp
        next
          case (Suc j)
          with i nn sd1 show ?thesis by simp
        qed
      qed
      with s l dd cc sd1 d show ?thesis
        by (intro exI [of _ "rv # rvs"]) simp
    qed
  qed
qed

lemma AddSignerInfo_signer_Inr:
  assumes "AddSignerInfo_signer ext sd cert signer = Inr si"
  shows "\<exists>content h mdAttr ctAttr sm.
     EContentValue (EncapContentInfo sd) = Inr (Some content)
     \<and> Hash ext si = Inr h
     \<and> NewAttribute ext oidAttributeMessageDigest (BytesValue (Hash_Sum ext h content)) = Inr mdAttr
     \<and> NewAttribute ext oidAttributeContentType (ObjectIdentifierValue oidData) = Inr ctAttr
     \<and> SignedAttrs si = Some [mdAttr, ctAttr]
     \<and> MarshaledForSigning ext (SignedAttrs si) = Inr sm
     \<and> Sign signer (Hash_Sum ext h sm) h = Inr (Signature si)
     \<and> si_Version si = 1"
  using assms unfolding AddSignerInfo_signer_def Let_def
  by (auto split: sum.splits option.splits simp: slice_list_def Hash_def)

lemma AddSignerInfo_None:
  assumes "AddSignerInfo ext sd chain signer = (sd', None)"
  shows "\<exists>pub sd1 cert si.
     MarshalPKIXPublicKey (Public signer) = Inr pub
     \<and> AddSignerInfo_chain pub sd chain None = (sd1, Inr (Some cert))
     \<and> AddSignerInfo_signer ext sd1 cert signer = Inr si
     \<and> sd' = (addDigestAlgorithm sd1 (DigestAlgorithm si))
              \<lparr>SignerInfos := SignerInfos sd1 @ [si]\<rparr>"
  using assms unfolding AddSignerInfo_def Let_def
  by (auto split: sum.splits option.splits prod.splits simp: addDigestAlgorithm_def)

lemma AddSignerInfo_Some:
  assumes "AddSignerInfo ext sd chain signer = (sd', Some e)"
  shows "(\<exists>e'. MarshalPKIXPublicKey (Public signer) = Inl e' \<and> sd' = sd)
     \<or> (\<exists>pub r. MarshalPKIXPublicKey (Public signer) = Inr pub
            \<and> AddSignerInfo_chain pub sd chain None = (sd', r))"
  using assms unfolding AddSignerInfo_def Let_def
  by (auto split: sum.splits option.splits prod.splits)

lemmas marshal_defs = std_Marshal_def der_TLV_def appendTagAndLength_def marshal_RawValue_def
  marshal_ObjectIdentifier_def appendBase128Int_def base128_high.simps
  marshal_IssuerAndSerialNumber_def makeBigInt_def nat_Bytes.simps marshal_AttributesSet_def
  marshal_Attribute_def sort_encodings_def std_AnySet_Encode_def NewAnySet_def Let_def

lemma std_extern_simps [simp]:
  "Hash_Available std_extern = (\<lambda>h. True)" "Hash_Sum std_extern = checksum"
  "asn1_Marshal std_extern = std_Marshal" "DecodeAnySet std_extern = std_DecodeAnySet"
  "AnySet_Encode std_extern = std_AnySet_Encode"
  by (simp_all add: std_extern_def)

lemma example_NewIssuerAndSerialNumber:
  "NewIssuerAndSerialNumber std_extern example_cert_A = Inr (SID example_built_signer_info)"
  by (simp add: NewIssuerAndSerialNumber_def example_cert_A_def example_certificate_def
      example_built_signer_info_def parse_defs marshal_defs asn1_consts slice_bytes_def)

lemma std_Marshal_oidData:
  "std_Marshal (ObjectIdentifierValue oidData)
     = Inr [0x06, 0x09, 0x2a, 0x86, 0x48, 0x86, 0xf7, 0x0d, 0x01, 0x07, 0x01]"
  by (simp add: marshal_defs oidData_def asn1_consts)

lemma std_Marshal_oidTSTInfo:
  "std_Marshal (ObjectIdentifierValue oidTSTInfo)
     = Inr [0x06, 0x0b, 0x2a, 0x86, 0x48, 0x86, 0xf7, 0x0d, 0x01, 0x09, 0x10, 0x01, 0x04]"
  by (simp add: marshal_defs oidTSTInfo_def asn1_consts)

lemma example_NewAttribute_ct:
  "NewAttribute std_extern oidAttributeContentType (ObjectIdentifierValue oidData)
     = Inr example_ct_attribute"
  by (simp add: NewAttribute_def std_Marshal_oidData parse_defs example_ct_attribute_def
      std_AnySet_Encode_def NewAnySet_def marshal_RawValue_def der_TLV_def appendTagAndLength_def
      asn1_consts Let_def)

lemma replicate_30:
  "replicate 30 x = [x, x, x, x, x, x, x, x, x, x, x, x, x, x, x,
                     x, x, x, x, x, x, x, x, x, x, x, x, x, x, x]"
  by (simp add: eval_nat_numeral)

lemma example_checksum:
  "checksum SHA256 [0x68, 0x69] = example_digest"
  "checksum SHA256 example_signed_bytes = tl example_signature"
  by (simp_all add: checksum_def Hash_Size_def replicate_30 example_digest_def
      example_signed_bytes_def example_ct_der_def example_md_der_def example_signature_def)

lemma example_NewAttribute_md:
  "NewAttribute std_extern oidAttributeMessageDigest (BytesValue example_digest)
     = Inr example_md_attribute"
  by (simp add: NewAttribute_def parse_defs example_md_attribute_def example_digest_def
      marshal_defs asn1_consts)

lemma example_marshal_Attribute:
  "marshal_Attribute example_md_attribute = Inr example_md_der"
  "marshal_Attribute example_ct_attribute = Inr example_ct_der"
  by (simp_all add: marshal_defs example_md_attribute_def example_ct_attribute_def
      example_md_der_def example_ct_der_def example_digest_def oid_defs asn1_consts)

lemma example_MarshaledForSigning:
  "MarshaledForSigning std_extern (Some [example_md_attribute, example_ct_attribute]) =
     Inr example_signed_bytes"
  by (simp add: MarshaledForSigning_def std_Marshal_def marshal_AttributesSet_def slice_list_def
      example_marshal_Attribute sort_encodings_def example_md_der_def example_ct_der_def
      example_digest_def example_signed_bytes_def der_TLV_def appendTagAndLength_def
      slice_bytes_def asn1_consts parse_defs)

lemma example_decodes:
  "asn1_Unmarshal_RawValue (Raw example_cert_A) = Inr (example_raw_A, [])"
  "asn1_Unmarshal_RawValue (Raw example_cert_B) = Inr (example_raw_B, [])"
  by (simp_all add: example_cert_A_def example_cert_B_def example_certificate_def
      example_raw_A_def example_raw_B_def parse_defs)

lemma example_found_present:
  "\<not> found_present [] c"
  "\<not> found_present [example_raw_A] example_cert_A"
  "\<not> found_present [example_raw_A] example_cert_B"
  "\<not> found_present [example_raw_A, example_raw_B] example_cert_A"
  by (simp_all add: found_present_def bytes_Equal_def slice_bytes_def example_raw_A_def
      example_raw_B_def example_cert_A_def example_cert_B_def example_certificate_def)

lemma example_keys:
  "MarshalPKIXPublicKey (Public example_signer) = Inr [1, 2, 3]"
  "MarshalPKIXPublicKey (cert_PublicKey example_cert_A) = Inr [1, 2, 3]"
  "MarshalPKIXPublicKey (cert_PublicKey example_cert_B) = Inr [4, 5, 6]"
  by (simp_all add: MarshalPKIXPublicKey_def example_signer_def example_cert_A_def
      example_cert_B_def example_certificate_def)

lemma example_chain_A:
  "Certificates sd = [] \<Longrightarrow> AddSignerInfo_chain [1, 2, 3] sd [example_cert_A] None =
     (sd\<lparr>Certificates := [example_raw_A]\<rparr>, Inr (Some example_cert_A))"
  by (simp add: addCertificate_cases example_found_present example_decodes example_keys
      bytes_Equal_def)

lemma example_chain_AA:
  "Certificates sd = [] \<Longrightarrow> AddSignerInfo_chain [1, 2, 3] sd [example_cert_A, example_cert_A] None =
     (sd\<lparr>Certificates := [example_raw_A, example_raw_A]\<rparr>, Inr (Some example_cert_A))"
  by (simp add: addCertificate_cases example_found_present example_decodes example_keys
      bytes_Equal_def)

lemma example_chain_AB:
  "Certificates sd = [] \<Longrightarrow> AddSignerInfo_chain [1, 2, 3] sd [example_cert_A, example_cert_B] None =
     (sd\<lparr>Certificates := [example_raw_A, example_raw_B]\<rparr>, Inr (Some example_cert_A))"
  by (simp add: addCertificate_cases example_found_present example_decodes example_keys
      bytes_Equal_def)

lemma example_EContentValue:
  "EContentValue (example_eci t example_content) = Inr (Some [0x68, 0x69])"
  "EContentValue (example_eci t None) = Inr None"
  by (simp_all add: EContentValue_def example_eci_def example_content_def parse_defs asn1_consts)

lemma example_Hash:
  "Algorithm (DigestAlgorithm si) = oidDigestAlgorithmSHA256 \<Longrightarrow> Hash std_extern si = Inr SHA256"
  by (simp add: Hash_def digestAlgorithmToHash_String) (simp add: oid_defs)

lemma example_AddSignerInfo_signer:
  assumes "EContentValue (EncapContentInfo sd) = Inr (Some [0x68, 0x69])"
  shows "AddSignerInfo_signer std_extern sd example_cert_A example_signer
         = Inr example_built_signer_info"
proof -
  have alg: "cert_SignatureAlgorithm example_cert_A = SHA256WithRSA"
    by (simp add: example_cert_A_def example_certificate_def)
  have sign: "\<And>d h. Sign example_signer d h = Inr (0x53 # d)"
    by (simp add: example_signer_def)
  show ?thesis
    unfolding AddSignerInfo_signer_def
    by (simp add: assms example_NewIssuerAndSerialNumber alg signatureAlgorithmToDigestAlgorithm_def
        signatureAlgorithmToSignatureAlgorithm_def example_Hash example_NewAttribute_md
        example_NewAttribute_ct slice_list_def example_MarshaledForSigning sign example_checksum
        example_built_signer_info_def example_signature_def Let_def)
qed

lemma example_AddSignerInfo:
  assumes "EContentValue (EncapContentInfo sd) = Inr (Some [0x68, 0x69])"
    and "AddSignerInfo_chain [1, 2, 3] sd chain None = (sd\<lparr>Certificates := rvs\<rparr>, Inr (Some example_cert_A))"
  shows "AddSignerInfo std_extern sd chain example_signer =
     (sd\<lparr>Certificates := rvs,
         DigestAlgorithms := DigestAlgorithms (addDigestAlgorithm sd (DigestAlgorithm example_built_signer_info)),
         SignerInfos := SignerInfos sd @ [example_built_signer_info]\<rparr>, None)"
  using assms example_AddSignerInfo_signer [of "sd\<lparr>Certificates := rvs\<rparr>"]
  by (simp add: AddSignerInfo_def example_keys addDigestAlgorithm_def)













lemma example_success:
  "AddSignerInfo std_extern (example_signed_data t example_content) [example_cert_A] example_signer =
     ((example_signed_data t example_content)
        \<lparr>Certificates := [example_raw_A],
         DigestAlgorithms := [DigestAlgorithm example_built_signer_info],
         SignerInfos := [example_built_signer_info]\<rparr>, None)"
  using example_AddSignerInfo [of "example_signed_data t example_content" "[example_cert_A]" "[example_raw_A]"]
    example_chain_A [of "example_signed_data t example_content"]
  by (simp add: example_signed_data_def example_EContentValue addDigestAlgorithm_def)



text \<open>
  C9. When an \<open>AddSignerInfo\<close> call fails, no SignerInfo is appended and the set of
  digest algorithms is as before, while the certificate set keeps what the call registered
  before it failed: it is the previous set followed by the decoded certificates of a prefix
  of the chain, and of the whole chain when the failure comes after the loop over the chain
  (detached content, an unsupported algorithm, a failing signer).
\<close>

theorem AddSignerInfo_failure_not_rolled_back:
  assumes "AddSignerInfo ext sd chain signer = (sd', Some e)"
  shows "SignerInfos sd' = SignerInfos sd \<and> DigestAlgorithms sd' = DigestAlgorithms sd
     \<and> (\<exists>rvs. sd' = sd\<lparr>Certificates := Certificates sd @ rvs\<rparr>
            \<and> length rvs \<le> length chain
            \<and> list_all2 decodes_to (take (length rvs) chain) rvs
            \<and> (\<forall>pub sd1 cert. MarshalPKIXPublicKey (Public signer) = Inr pub
                  \<and> AddSignerInfo_chain pub sd chain None = (sd1, Inr cert)
                  \<longrightarrow> length rvs = length chain))"
proof -
  from AddSignerInfo_Some [OF assms] show ?thesis
  proof (elim disjE exE conjE)
    fix e'
    assume "MarshalPKIXPublicKey (Public signer) = Inl e'" "sd' = sd"
    then show ?thesis by (auto intro: exI [of _ "[]"])
  next
    fix pub r
    assume p: "MarshalPKIXPublicKey (Public signer) = Inr pub"
      and c: "AddSignerInfo_chain pub sd chain None = (sd', r)"
    from AddSignerInfo_chain_result [OF c] obtain rvs where
      s: "sd' = sd\<lparr>Certificates := Certificates sd @ rvs\<rparr>"
      and l: "length rvs \<le> length chain"
      and d: "list_all2 decodes_to (take (length rvs) chain) rvs"
      and f: "\<forall>c. r = Inr c \<longrightarrow> length rvs = length chain"
      by blast
    from s have "SignerInfos sd' = SignerInfos sd" "DigestAlgorithms sd' = DigestAlgorithms sd"
      by simp_all
    note this s
    moreover have "\<forall>pub' sd1 cert. MarshalPKIXPublicKey (Public signer) = Inr pub'
                  \<and> AddSignerInfo_chain pub' sd chain None = (sd1, Inr cert)
                  \<longrightarrow> length rvs = length chain"
      using p c f by auto
    ultimately show ?thesis using l d by blast
  qed
qed

lemma example_detached:
  "AddSignerInfo std_extern (example_signed_data oidData None) [example_cert_A, example_cert_B]
     example_signer =
   ((example_signed_data oidData None)\<lparr>Certificates := [example_raw_A, example_raw_B]\<rparr>,
    Some ErrAlreadyDetached)"
proof -
  let ?sd = "example_signed_data oidData None"
  have c: "Certificates ?sd = []" by (simp add: example_signed_data_def)
  have alg: "cert_SignatureAlgorithm example_cert_A = SHA256WithRSA"
    by (simp add: example_cert_A_def example_certificate_def)
  have "AddSignerInfo_signer std_extern (?sd\<lparr>Certificates := [example_raw_A, example_raw_B]\<rparr>)
      example_cert_A example_signer = Inl ErrAlreadyDetached"
    by (simp add: AddSignerInfo_signer_def example_NewIssuerAndSerialNumber alg
        signatureAlgorithmToDigestAlgorithm_def signatureAlgorithmToSignatureAlgorithm_def
        example_signed_data_def example_EContentValue Let_def)
  with example_chain_AB [OF c] show ?thesis
    by (simp add: AddSignerInfo_def example_keys)
qed

lemma example_unsupported:
  "AddSignerInfo std_extern (example_signed_data oidData example_content) [example_cert_C]
     example_signer =
   ((example_signed_data oidData example_content)\<lparr>Certificates := [example_raw_A]\<rparr>,
    Some ErrUnsupportedDigestAlgorithm)"
proof -
  let ?sd = "example_signed_data oidData example_content"
  have c: "Certificates ?sd = []" by (simp add: example_signed_data_def)
  have f: "Raw example_cert_C = Raw example_cert_A" "RawIssuer example_cert_C = RawIssuer example_cert_A"
    "cert_SerialNumber example_cert_C = cert_SerialNumber example_cert_A"
    "cert_PublicKey example_cert_C = cert_PublicKey example_cert_A"
    "cert_SignatureAlgorithm example_cert_C = PureEd25519"
    by (simp_all add: example_cert_C_def)
  have n: "NewIssuerAndSerialNumber std_extern example_cert_C = Inr (SID example_built_signer_info)"
    using example_NewIssuerAndSerialNumber unfolding NewIssuerAndSerialNumber_def f .
  have ch: "AddSignerInfo_chain [1, 2, 3] ?sd [example_cert_C] None =
     (?sd\<lparr>Certificates := [example_raw_A]\<rparr>, Inr (Some example_cert_C))"
    using example_decodes(1) example_keys(2)
    by (simp add: addCertificate_def c f bytes_Equal_def)
  have "AddSignerInfo_signer std_extern (?sd\<lparr>Certificates := [example_raw_A]\<rparr>)
      example_cert_C example_signer = Inl ErrUnsupportedDigestAlgorithm"
    by (simp add: AddSignerInfo_signer_def n f signatureAlgorithmToDigestAlgorithm_def)
  with ch show ?thesis
    by (simp add: AddSignerInfo_def example_keys)
qed

theorem AddSignerInfo_failure_not_rolled_back_witness:
  "(\<exists>sd'. AddSignerInfo std_extern (example_signed_data oidData None)
            [example_cert_A, example_cert_B] example_signer = (sd', Some ErrAlreadyDetached)
         \<and> Certificates sd' = [example_raw_A, example_raw_B]
         \<and> SignerInfos sd' = [] \<and> DigestAlgorithms sd' = [])
   \<and> (\<exists>sd'. AddSignerInfo std_extern (example_signed_data oidData example_content)
            [example_cert_C] example_signer = (sd', Some ErrUnsupportedDigestAlgorithm)
         \<and> Certificates sd' = [example_raw_A]
         \<and> SignerInfos sd' = [] \<and> DigestAlgorithms sd' = [])"
proof -
  have e: "\<And>t c. SignerInfos (example_signed_data t c) = []"
    "\<And>t c. DigestAlgorithms (example_signed_data t c) = []"
    by (simp_all add: example_signed_data_def)
  from AddSignerInfo_failure_not_rolled_back [OF example_detached] e
  have 1: "SignerInfos ((example_signed_data oidData None)\<lparr>Certificates := [example_raw_A, example_raw_B]\<rparr>) = []
      \<and> DigestAlgorithms ((example_signed_data oidData None)\<lparr>Certificates := [example_raw_A, example_raw_B]\<rparr>) = []"
    by simp
  from AddSignerInfo_failure_not_rolled_back [OF example_unsupported] e
  have 2: "SignerInfos ((example_signed_data oidData example_content)\<lparr>Certificates := [example_raw_A]\<rparr>) = []
      \<and> DigestAlgorithms ((example_signed_data oidData example_content)\<lparr>Certificates := [example_raw_A]\<rparr>) = []"
    by simp
  from 1 2 example_detached example_unsupported show ?thesis by simp
qed

text \<open>
  The content of a value is shorter than the value: an entry that \<open>addCertificate\<close> has
  appended for a certificate is never found equal to that certificate, and adding the same
  certificate once more appends it once more.
\<close>

lemma decoded_content_differs:
  assumes "decodes_to c rv"
  shows "\<not> bytes_Equal (slice_bytes (Bytes rv)) (Raw c)"
proof -
  from assms obtain rest where u: "asn1_Unmarshal_RawValue (Raw c) = Inr (rv, rest)"
    by (auto simp: decodes_to_def split: sum.splits)
  then obtain t rest' where p: "parseTagAndLength (Raw c) = Inr (t, rest')"
    and b: "Bytes rv = Some (take (tl_length t) rest')"
    by (auto simp: asn1_Unmarshal_RawValue_def split: if_splits sum.splits)
  from parseTagAndLength_length [OF p] have "length rest' < length (Raw c)" by simp
  with b have "length (slice_bytes (Bytes rv)) < length (Raw c)"
    by (simp add: slice_bytes_def)
  then show ?thesis by (auto simp: bytes_Equal_def)
qed

lemma addCertificate_same_twice:
  assumes "addCertificate sd c = (sd1, None)"
  shows "\<exists>rv. decodes_to c rv
     \<and> sd1 = sd\<lparr>Certificates := Certificates sd @ [rv]\<rparr>
     \<and> addCertificate sd1 c = (sd\<lparr>Certificates := Certificates sd @ [rv, rv]\<rparr>, None)"
proof -
  from assms obtain rv where nf: "\<not> found_present (Certificates sd) c"
    and d: "decodes_to c rv" and s: "sd1 = sd\<lparr>Certificates := Certificates sd @ [rv]\<rparr>"
    by (auto simp: addCertificate_None)
  from nf decoded_content_differs [OF d] s have "\<not> found_present (Certificates sd1) c"
    by (simp add: found_present_def)
  with d s have "addCertificate sd1 c = (sd\<lparr>Certificates := Certificates sd @ [rv, rv]\<rparr>, None)"
    by (auto simp: addCertificate_cases decodes_to_def split: sum.splits)
  with d s show ?thesis by blast
qed

lemma example_second_call:
  "AddSignerInfo std_extern
     ((example_signed_data t example_content)
        \<lparr>Certificates := [example_raw_A],
         DigestAlgorithms := [DigestAlgorithm example_built_signer_info],
         SignerInfos := [example_built_signer_info]\<rparr>) [example_cert_A] example_signer =
     ((example_signed_data t example_content)
        \<lparr>Certificates := [example_raw_A, example_raw_A],
         DigestAlgorithms := [DigestAlgorithm example_built_signer_info],
         SignerInfos := [example_built_signer_info, example_built_signer_info]\<rparr>, None)"
proof -
  let ?sd1 = "(example_signed_data t example_content)
        \<lparr>Certificates := [example_raw_A],
         DigestAlgorithms := [DigestAlgorithm example_built_signer_info],
         SignerInfos := [example_built_signer_info]\<rparr>"
  have e: "EContentValue (EncapContentInfo ?sd1) = Inr (Some [0x68, 0x69])"
    by (simp add: example_signed_data_def example_EContentValue)
  have ch: "AddSignerInfo_chain [1, 2, 3] ?sd1 [example_cert_A] None =
      (?sd1\<lparr>Certificates := [example_raw_A, example_raw_A]\<rparr>, Inr (Some example_cert_A))"
    by (simp add: addCertificate_cases example_found_present example_decodes example_keys
        bytes_Equal_def)
  from example_AddSignerInfo [OF e ch] show ?thesis
    by (simp add: addDigestAlgorithm_def OID_Equal_def)
qed

text \<open>
  C1 fails on the code. \<open>addCertificate\<close> looks for the certificate among the entries
  of the certificate set, but it compares the content bytes of an entry (the value without
  its tag and length) with the whole encoding of the certificate, while the entry it appends
  for a certificate holds that whole encoding: no entry it has appended is found again. With
  a chain that holds the same certificate twice \<open>AddSignerInfo\<close> succeeds and the
  certificate is in the set twice; the same after two calls with the same certificate, where
  the digest algorithm, which the two signers share as well, is in its set once.
\<close>

theorem AddSignerInfo_duplicates_certificate:
  "(\<exists>sd'. AddSignerInfo std_extern (example_signed_data oidData example_content)
            [example_cert_A, example_cert_A] example_signer = (sd', None)
         \<and> Certificates sd' = [example_raw_A, example_raw_A])
   \<and> (\<exists>sd1 sd2. AddSignerInfo std_extern (example_signed_data oidData example_content)
            [example_cert_A] example_signer = (sd1, None)
         \<and> Certificates sd1 = [example_raw_A]
         \<and> AddSignerInfo std_extern sd1 [example_cert_A] example_signer = (sd2, None)
         \<and> Certificates sd2 = [example_raw_A, example_raw_A]
         \<and> DigestAlgorithms sd2 = DigestAlgorithms sd1)
   \<and> FullBytes example_raw_A = Raw example_cert_A
   \<and> Bytes example_raw_A = Some [0x02, 0x01, 0x07]
   \<and> Raw example_cert_A = [0x30, 0x03, 0x02, 0x01, 0x07]"
proof -
  let ?sd = "example_signed_data oidData example_content"
  have c: "Certificates ?sd = []" by (simp add: example_signed_data_def)
  have e: "EContentValue (EncapContentInfo ?sd) = Inr (Some [0x68, 0x69])"
    by (simp add: example_signed_data_def example_EContentValue)
  from example_AddSignerInfo [OF e example_chain_AA [OF c]]
  have 1: "\<exists>sd'. AddSignerInfo std_extern ?sd [example_cert_A, example_cert_A] example_signer
        = (sd', None) \<and> Certificates sd' = [example_raw_A, example_raw_A]"
    by simp
  from example_success [of oidData] example_second_call [of oidData]
  have 2: "\<exists>sd1 sd2. AddSignerInfo std_extern ?sd [example_cert_A] example_signer = (sd1, None)
         \<and> Certificates sd1 = [example_raw_A]
         \<and> AddSignerInfo std_extern sd1 [example_cert_A] example_signer = (sd2, None)
         \<and> Certificates sd2 = [example_raw_A, example_raw_A]
         \<and> DigestAlgorithms sd2 = DigestAlgorithms sd1"
    by simp
  have 3: "FullBytes example_raw_A = Raw example_cert_A"
    "Bytes example_raw_A = Some [0x02, 0x01, 0x07]"
    "Raw example_cert_A = [0x30, 0x03, 0x02, 0x01, 0x07]"
    by (simp_all add: example_raw_A_def example_cert_A_def example_certificate_def)
  from 1 2 3 show ?thesis by blast
qed

text \<open>
  The content-type attribute that \<open>AddSignerInfo\<close> attaches is built from the constant
  \<open>oidData\<close>, whatever the SignedData holds.
\<close>

lemma AddSignerInfo_content_type_constant:
  assumes "AddSignerInfo ext sd chain signer = (sd', None)"
  shows "\<exists>si mdAttr ctAttr. SignerInfos sd' = SignerInfos sd @ [si]
     \<and> SignedAttrs si = Some [mdAttr, ctAttr]
     \<and> NewAttribute ext oidAttributeContentType (ObjectIdentifierValue oidData) = Inr ctAttr"
proof -
  from AddSignerInfo_None [OF assms] obtain pub sd1 cert si where
    c: "AddSignerInfo_chain pub sd chain None = (sd1, Inr (Some cert))"
    and s: "AddSignerInfo_signer ext sd1 cert signer = Inr si"
    and r: "sd' = (addDigestAlgorithm sd1 (DigestAlgorithm si))\<lparr>SignerInfos := SignerInfos sd1 @ [si]\<rparr>"
    by blast
  from AddSignerInfo_chain_result [OF c] have "SignerInfos sd1 = SignerInfos sd" by auto
  with r have "SignerInfos sd' = SignerInfos sd @ [si]" by simp
  with AddSignerInfo_signer_Inr [OF s] show ?thesis by blast
qed

text \<open>
  C2 fails on the code. For a SignedData whose encapsulated content type is id-ct-TSTInfo,
  \<open>AddSignerInfo\<close> succeeds and the content-type attribute of the new SignerInfo holds
  the encoding of id-data, not of the content type of the SignedData.
\<close>

theorem AddSignerInfo_content_type_attribute:
  "\<exists>sd' si rv.
     AddSignerInfo std_extern (example_signed_data oidTSTInfo example_content) [example_cert_A]
       example_signer = (sd', None)
     \<and> EContentType (EncapContentInfo sd') = oidTSTInfo
     \<and> SignerInfos sd' = [si]
     \<and> GetOnlyAttributeValueBytes std_extern (SignedAttrs si) oidAttributeContentType = Inr rv
     \<and> Inr (FullBytes rv) = asn1_Marshal std_extern (ObjectIdentifierValue oidData)
     \<and> Inr (FullBytes rv) \<noteq> asn1_Marshal std_extern (ObjectIdentifierValue oidTSTInfo)"
proof -
  let ?rv = "\<lparr>Class = 0, Tag = 6, IsCompound = False,
              Bytes = Some [0x2a, 0x86, 0x48, 0x86, 0xf7, 0x0d, 0x01, 0x07, 0x01],
              FullBytes = [0x06, 0x09, 0x2a, 0x86, 0x48, 0x86, 0xf7, 0x0d, 0x01, 0x07, 0x01]\<rparr>"
  have d: "std_DecodeAnySet (RawValue example_ct_attribute) = Inr \<lparr>Elements = [?rv]\<rparr>"
    by (simp add: std_DecodeAnySet_def example_ct_attribute_def slice_bytes_def
        asn1_children.simps parse_defs)
  have n: "oidAttributeMessageDigest \<noteq> oidAttributeContentType" by (simp add: oid_defs)
  have g: "GetOnlyAttributeValueBytes std_extern (SignedAttrs example_built_signer_info)
      oidAttributeContentType = Inr ?rv"
    by (simp add: GetOnlyAttributeValueBytes_Inr example_built_signer_info_def slice_list_def
        example_md_attribute_def n d)
       (simp add: example_ct_attribute_def d [unfolded example_ct_attribute_def, simplified])
  show ?thesis
    using example_success [of oidTSTInfo] g
    by (simp add: std_Marshal_oidData std_Marshal_oidTSTInfo example_signed_data_def
        example_eci_def)
qed

end
